theory Spec2Isabelle
  imports Complex_Main
begin

section \<open>Numbers of the analyzer\<close>

text \<open>
  The analyzer computes on IEEE doubles (Python floats and numpy float64 scalars). The
  model keeps the three exceptional values, since numpy arithmetic returns them instead of
  raising (the module silences the warnings), and the range of a double: the result of
  an addition, multiplication or division of finite values overflows to an infinity from
  \<open>2^1024 - 2^970\<close> on (half a unit past the largest double) and is zero up to
  \<open>2^-1075\<close> (half the smallest subnormal). Between the two the result is taken exact:
  rounding to 53 bits and the sign of zero are not modelled (a zero counts as +0).
\<close>

datatype npfloat = Fin real | PInf | NInf | NaN

definition dbl_over :: real where
  "dbl_over = 2 ^ 1024 - 2 ^ 970"

definition dbl_tiny :: real where
  "dbl_tiny = 1 / 2 ^ 1075"

text \<open>The double that a finite operation with exact result \<open>r\<close> returns.\<close>

definition fl_fin :: "real \<Rightarrow> npfloat" where
  "fl_fin r =
     (if dbl_over \<le> r then PInf
      else if r \<le> - dbl_over then NInf
      else if \<bar>r\<bar> \<le> dbl_tiny then Fin 0
      else Fin r)"

fun fl_neg :: "npfloat \<Rightarrow> npfloat" where
  "fl_neg (Fin a) = Fin (- a)"
| "fl_neg PInf = NInf"
| "fl_neg NInf = PInf"
| "fl_neg NaN = NaN"

fun fl_add :: "npfloat \<Rightarrow> npfloat \<Rightarrow> npfloat" where
  "fl_add NaN _ = NaN"
| "fl_add _ NaN = NaN"
| "fl_add (Fin a) (Fin b) = fl_fin (a + b)"
| "fl_add PInf NInf = NaN"
| "fl_add NInf PInf = NaN"
| "fl_add PInf _ = PInf"
| "fl_add _ PInf = PInf"
| "fl_add NInf _ = NInf"
| "fl_add _ NInf = NInf"

definition fl_sub :: "npfloat \<Rightarrow> npfloat \<Rightarrow> npfloat" where
  "fl_sub a b = fl_add a (fl_neg b)"

fun fl_mul :: "npfloat \<Rightarrow> npfloat \<Rightarrow> npfloat" where
  "fl_mul NaN _ = NaN"
| "fl_mul _ NaN = NaN"
| "fl_mul (Fin a) (Fin b) = fl_fin (a * b)"
| "fl_mul (Fin a) PInf = (if a = 0 then NaN else if 0 < a then PInf else NInf)"
| "fl_mul (Fin a) NInf = (if a = 0 then NaN else if 0 < a then NInf else PInf)"
| "fl_mul PInf (Fin b) = (if b = 0 then NaN else if 0 < b then PInf else NInf)"
| "fl_mul NInf (Fin b) = (if b = 0 then NaN else if 0 < b then NInf else PInf)"
| "fl_mul PInf PInf = PInf"
| "fl_mul NInf NInf = PInf"
| "fl_mul PInf NInf = NInf"
| "fl_mul NInf PInf = NInf"

text \<open>
  Division of numpy scalars: a zero divisor gives NaN (0/0) or an infinity, never an
  exception.
\<close>

fun fl_div :: "npfloat \<Rightarrow> npfloat \<Rightarrow> npfloat" where
  "fl_div NaN _ = NaN"
| "fl_div _ NaN = NaN"
| "fl_div (Fin a) (Fin b) =
     (if b = 0 then (if a = 0 then NaN else if 0 < a then PInf else NInf) else fl_fin (a / b))"
| "fl_div (Fin a) PInf = Fin 0"
| "fl_div (Fin a) NInf = Fin 0"
| "fl_div PInf (Fin b) = (if 0 \<le> b then PInf else NInf)"
| "fl_div NInf (Fin b) = (if 0 \<le> b then NInf else PInf)"
| "fl_div _ _ = NaN"

fun fl_sqrt :: "npfloat \<Rightarrow> npfloat" where
  "fl_sqrt (Fin a) = (if a < 0 then NaN else Fin (sqrt a))"
| "fl_sqrt PInf = PInf"
| "fl_sqrt NInf = NaN"
| "fl_sqrt NaN = NaN"

fun fl_abs :: "npfloat \<Rightarrow> npfloat" where
  "fl_abs (Fin a) = Fin \<bar>a\<bar>"
| "fl_abs PInf = PInf"
| "fl_abs NInf = PInf"
| "fl_abs NaN = NaN"

text \<open>Comparisons: every comparison with NaN is false.\<close>

fun fl_lt :: "npfloat \<Rightarrow> npfloat \<Rightarrow> bool" where
  "fl_lt NaN _ = False"
| "fl_lt _ NaN = False"
| "fl_lt (Fin a) (Fin b) = (a < b)"
| "fl_lt (Fin a) PInf = True"
| "fl_lt NInf (Fin b) = True"
| "fl_lt NInf PInf = True"
| "fl_lt _ _ = False"

definition fl_gt :: "npfloat \<Rightarrow> npfloat \<Rightarrow> bool" where
  "fl_gt a b = fl_lt b a"

text \<open>\<open>np.clip(v, lo, hi)\<close> with finite bounds: NaN passes through.\<close>

fun np_clip :: "npfloat \<Rightarrow> real \<Rightarrow> real \<Rightarrow> npfloat" where
  "np_clip (Fin a) lo hi = Fin (min (max a lo) hi)"
| "np_clip PInf lo hi = Fin hi"
| "np_clip NInf lo hi = Fin lo"
| "np_clip NaN lo hi = NaN"

fun np_arccos :: "npfloat \<Rightarrow> npfloat" where
  "np_arccos (Fin a) = (if - 1 \<le> a \<and> a \<le> 1 then Fin (arccos a) else NaN)"
| "np_arccos _ = NaN"

fun np_degrees :: "npfloat \<Rightarrow> npfloat" where
  "np_degrees (Fin a) = Fin (a * 180 / pi)"
| "np_degrees v = v"

text \<open>\<open>np.arctan2(y, x)\<close>, the angle of the point \<open>(x, y)\<close> in \<open>(-pi, pi]\<close>.\<close>

fun np_arctan2 :: "npfloat \<Rightarrow> npfloat \<Rightarrow> npfloat" where
  "np_arctan2 NaN _ = NaN"
| "np_arctan2 _ NaN = NaN"
| "np_arctan2 (Fin b) (Fin a) =
     Fin (if 0 < a then arctan (b / a)
          else if a < 0 then (if 0 \<le> b then arctan (b / a) + pi else arctan (b / a) - pi)
          else if 0 < b then pi / 2 else if b < 0 then - (pi / 2) else 0)"
| "np_arctan2 (Fin b) PInf = Fin 0"
| "np_arctan2 (Fin b) NInf = Fin (if 0 \<le> b then pi else - pi)"
| "np_arctan2 PInf (Fin a) = Fin (pi / 2)"
| "np_arctan2 NInf (Fin a) = Fin (- (pi / 2))"
| "np_arctan2 PInf PInf = Fin (pi / 4)"
| "np_arctan2 NInf PInf = Fin (- (pi / 4))"
| "np_arctan2 PInf NInf = Fin (3 * pi / 4)"
| "np_arctan2 NInf NInf = Fin (- (3 * pi / 4))"

section \<open>Geometry primitives\<close>

type_synonym point = "npfloat \<times> npfloat"

definition np_sub :: "point \<Rightarrow> point \<Rightarrow> point" where
  "np_sub p q = (fl_sub (fst p) (fst q), fl_sub (snd p) (snd q))"

definition np_dot :: "point \<Rightarrow> point \<Rightarrow> npfloat" where
  "np_dot p q = fl_add (fl_mul (fst p) (fst q)) (fl_mul (snd p) (snd q))"

definition np_norm :: "point \<Rightarrow> npfloat" where
  "np_norm p = fl_sqrt (fl_add (fl_mul (fst p) (fst p)) (fl_mul (snd p) (snd p)))"

text \<open>
  \<open>calculate_angle\<close>: the body of the \<open>try\<close>. On two-element numeric points none of its
  numpy calls raises, so the \<open>except\<close> branch (return 0.0) is never taken.
\<close>

definition calculate_angle :: "point \<Rightarrow> point \<Rightarrow> point \<Rightarrow> npfloat" where
  "calculate_angle a b c =
     (let ba = np_sub a b;
          bc = np_sub c b;
          cosine_angle = fl_div (np_dot ba bc) (fl_mul (np_norm ba) (np_norm bc));
          cosine_angle = np_clip cosine_angle (- 1) 1;
          angle = np_arccos cosine_angle
      in np_degrees angle)"

section \<open>Landmarks, frames and faults\<close>

text \<open>
  A landmark is one joint sample of the pose estimator. A frame is the landmark container
  of one captured image; the analyzer reads it by index (0 nose, 11/12 shoulders, 13/14
  elbows, 15/16 wrists, 23/24 hips, 25/26 knees, 27/28 ankles). The test
  \<open>if landmarks:\<close> of the loops is true for a non-empty container.
\<close>

datatype landmark = Landmark (lm_x: npfloat) (lm_y: npfloat) (lm_z: npfloat) (lm_visibility: npfloat)

type_synonym frame = "landmark list"

text \<open>The exceptions the analyzer can meet; every \<open>except:\<close> of the source catches all.\<close>

datatype exn = IndexError | ValueError | ZeroDivisionError

definition bind :: "exn + 'a \<Rightarrow> ('a \<Rightarrow> exn + 'b) \<Rightarrow> exn + 'b" where
  "bind m f = (case m of Inl e \<Rightarrow> Inl e | Inr v \<Rightarrow> f v)"

text \<open>\<open>landmarks[i]\<close>: an index past the end raises.\<close>

definition getitem :: "frame \<Rightarrow> nat \<Rightarrow> exn + landmark" where
  "getitem landmarks i = (if i < length landmarks then Inr (landmarks ! i) else Inl IndexError)"

text \<open>The two-element list \<open>[landmarks[i].x, landmarks[i].y]\<close>.\<close>

definition xy :: "landmark \<Rightarrow> point" where
  "xy l = (lm_x l, lm_y l)"

text \<open>
  \<open>for landmarks in landmarks_sequence: if landmarks: body\<close>, the loop of every stage:
  the body updates the loop's variables, a fault in the body leaves the loop.
\<close>

fun for_frames :: "(frame \<Rightarrow> 's \<Rightarrow> exn + 's) \<Rightarrow> frame list \<Rightarrow> 's \<Rightarrow> exn + 's" where
  "for_frames body [] s = Inr s"
| "for_frames body (landmarks # rest) s =
     (if landmarks \<noteq> [] then bind (body landmarks s) (for_frames body rest)
      else for_frames body rest s)"

text \<open>The loops that append one value per valid frame.\<close>

definition collect :: "(frame \<Rightarrow> exn + 'a) \<Rightarrow> frame list \<Rightarrow> exn + 'a list" where
  "collect f landmarks_sequence =
     for_frames (\<lambda>landmarks acc. bind (f landmarks) (\<lambda>v. Inr (acc @ [v]))) landmarks_sequence []"

text \<open>
  Python's builtin \<open>max\<close> and \<open>min\<close> over a sequence keep the first element and replace
  it by a later one that compares greater (smaller); on an empty sequence they raise.
\<close>

fun py_max :: "npfloat list \<Rightarrow> exn + npfloat" where
  "py_max [] = Inl ValueError"
| "py_max (v # vs) = Inr (foldl (\<lambda>m w. if fl_gt w m then w else m) v vs)"

fun py_min :: "npfloat list \<Rightarrow> exn + npfloat" where
  "py_min [] = Inl ValueError"
| "py_min (v # vs) = Inr (foldl (\<lambda>m w. if fl_lt w m then w else m) v vs)"

definition max2 :: "npfloat \<Rightarrow> npfloat \<Rightarrow> npfloat" where
  "max2 a b = (if fl_gt b a then b else a)"

definition min2 :: "npfloat \<Rightarrow> npfloat \<Rightarrow> npfloat" where
  "min2 a b = (if fl_lt b a then b else a)"

section \<open>The signal library\<close>

text \<open>
  \<open>savgol_filter\<close> and \<open>find_peaks\<close> are scipy's, not the repository's: the model takes
  them as parameters. \<open>savgol_filter lib data window polyorder\<close> returns the filtered
  series or raises; \<open>find_peaks lib data height distance\<close> returns the indices of the
  peaks or raises.
\<close>

record scipy =
  savgol_filter :: "npfloat list \<Rightarrow> int \<Rightarrow> int \<Rightarrow> exn + npfloat list"
  find_peaks :: "npfloat list \<Rightarrow> npfloat \<Rightarrow> int \<Rightarrow> exn + nat list"

section \<open>Signal smoothing\<close>

definition smooth_data :: "scipy \<Rightarrow> npfloat list \<Rightarrow> int \<Rightarrow> npfloat list" where
  "smooth_data lib data window_length =
     (if int (length data) < window_length then data
      else let window_length = (if window_length mod 2 = 0 then window_length - 1 else window_length)
           in case savgol_filter lib data window_length (min 3 (window_length - 1)) of
                Inr smoothed \<Rightarrow> smoothed
              | Inl e \<Rightarrow> data)"

section \<open>Per-frame signals\<close>

definition angle_at :: "frame \<Rightarrow> nat \<Rightarrow> nat \<Rightarrow> nat \<Rightarrow> exn + npfloat" where
  "angle_at landmarks i j k =
     bind (getitem landmarks i) (\<lambda>a.
     bind (getitem landmarks j) (\<lambda>b.
     bind (getitem landmarks k) (\<lambda>c.
     Inr (calculate_angle (xy a) (xy b) (xy c)))))"

definition left_elbow_angle :: "frame \<Rightarrow> exn + npfloat" where
  "left_elbow_angle landmarks = angle_at landmarks 11 13 15"

definition right_elbow_angle :: "frame \<Rightarrow> exn + npfloat" where
  "right_elbow_angle landmarks = angle_at landmarks 12 14 16"

definition left_knee_angle :: "frame \<Rightarrow> exn + npfloat" where
  "left_knee_angle landmarks = angle_at landmarks 23 25 27"

definition right_knee_angle :: "frame \<Rightarrow> exn + npfloat" where
  "right_knee_angle landmarks = angle_at landmarks 24 26 28"

text \<open>\<open>(landmarks[i].y + landmarks[j].y) / 2\<close> and the same on x.\<close>

definition mean_y :: "frame \<Rightarrow> nat \<Rightarrow> nat \<Rightarrow> exn + npfloat" where
  "mean_y landmarks i j =
     bind (getitem landmarks i) (\<lambda>a.
     bind (getitem landmarks j) (\<lambda>b.
     Inr (fl_div (fl_add (lm_y a) (lm_y b)) (Fin 2))))"

definition mean_x :: "frame \<Rightarrow> nat \<Rightarrow> nat \<Rightarrow> exn + npfloat" where
  "mean_x landmarks i j =
     bind (getitem landmarks i) (\<lambda>a.
     bind (getitem landmarks j) (\<lambda>b.
     Inr (fl_div (fl_add (lm_x a) (lm_x b)) (Fin 2))))"

definition avg_knee :: "frame \<Rightarrow> exn + npfloat" where
  "avg_knee landmarks =
     bind (left_knee_angle landmarks) (\<lambda>left_knee.
     bind (right_knee_angle landmarks) (\<lambda>right_knee.
     Inr (fl_div (fl_add left_knee right_knee) (Fin 2))))"

definition avg_elbow :: "frame \<Rightarrow> exn + npfloat" where
  "avg_elbow landmarks =
     bind (left_elbow_angle landmarks) (\<lambda>left_elbow.
     bind (right_elbow_angle landmarks) (\<lambda>right_elbow.
     Inr (fl_div (fl_add left_elbow right_elbow) (Fin 2))))"

definition both_knees :: "frame \<Rightarrow> exn + npfloat \<times> npfloat" where
  "both_knees landmarks =
     bind (left_knee_angle landmarks) (\<lambda>left_knee.
     bind (right_knee_angle landmarks) (\<lambda>right_knee.
     Inr (left_knee, right_knee)))"

text \<open>\<open>max(values) - min(values)\<close>.\<close>

definition spread :: "npfloat list \<Rightarrow> exn + npfloat" where
  "spread values = bind (py_max values) (\<lambda>hi. bind (py_min values) (\<lambda>lo. Inr (fl_sub hi lo)))"

section \<open>Movement metrics\<close>

text \<open>Each metric is a \<open>try\<close> whose \<open>except\<close> returns 0 (or False).\<close>

definition analyze_elbow_movement_body :: "scipy \<Rightarrow> frame list \<Rightarrow> exn + npfloat" where
  "analyze_elbow_movement_body lib landmarks_sequence =
     bind (collect left_elbow_angle landmarks_sequence) (\<lambda>elbow_angles.
       if length elbow_angles < 2 then Inr (Fin 0)
       else let elbow_angles = smooth_data lib elbow_angles 5
            in bind (spread elbow_angles) (\<lambda>r. Inr (fl_div r (Fin 180))))"

definition analyze_elbow_movement :: "scipy \<Rightarrow> frame list \<Rightarrow> npfloat" where
  "analyze_elbow_movement lib landmarks_sequence =
     (case analyze_elbow_movement_body lib landmarks_sequence of Inr v \<Rightarrow> v | Inl e \<Rightarrow> Fin 0)"

definition analyze_knee_movement_body :: "scipy \<Rightarrow> frame list \<Rightarrow> exn + npfloat" where
  "analyze_knee_movement_body lib landmarks_sequence =
     bind (collect avg_knee landmarks_sequence) (\<lambda>knee_angles.
       if length knee_angles < 2 then Inr (Fin 0)
       else let knee_angles = smooth_data lib knee_angles 5
            in bind (spread knee_angles) (\<lambda>r. Inr (fl_div r (Fin 180))))"

definition analyze_knee_movement :: "scipy \<Rightarrow> frame list \<Rightarrow> npfloat" where
  "analyze_knee_movement lib landmarks_sequence =
     (case analyze_knee_movement_body lib landmarks_sequence of Inr v \<Rightarrow> v | Inl e \<Rightarrow> Fin 0)"

definition analyze_hip_movement_body :: "scipy \<Rightarrow> frame list \<Rightarrow> exn + npfloat" where
  "analyze_hip_movement_body lib landmarks_sequence =
     bind (collect (\<lambda>landmarks. mean_y landmarks 23 24) landmarks_sequence) (\<lambda>hip_positions.
       if length hip_positions < 2 then Inr (Fin 0)
       else let hip_positions = smooth_data lib hip_positions 5
            in spread hip_positions)"

definition analyze_hip_movement :: "scipy \<Rightarrow> frame list \<Rightarrow> npfloat" where
  "analyze_hip_movement lib landmarks_sequence =
     (case analyze_hip_movement_body lib landmarks_sequence of Inr v \<Rightarrow> v | Inl e \<Rightarrow> Fin 0)"

definition analyze_shoulder_movement_body :: "scipy \<Rightarrow> frame list \<Rightarrow> exn + npfloat" where
  "analyze_shoulder_movement_body lib landmarks_sequence =
     bind (collect (\<lambda>landmarks. mean_y landmarks 11 12) landmarks_sequence) (\<lambda>shoulder_positions.
       if length shoulder_positions < 2 then Inr (Fin 0)
       else let shoulder_positions = smooth_data lib shoulder_positions 5
            in spread shoulder_positions)"

definition analyze_shoulder_movement :: "scipy \<Rightarrow> frame list \<Rightarrow> npfloat" where
  "analyze_shoulder_movement lib landmarks_sequence =
     (case analyze_shoulder_movement_body lib landmarks_sequence of Inr v \<Rightarrow> v | Inl e \<Rightarrow> Fin 0)"

text \<open>
  \<open>check_horizontal_body_position\<close>: the ratio's denominator counts every frame of the
  sequence; an empty sequence divides by zero, which the \<open>except\<close> turns into False.
\<close>

definition horizontal_step :: "frame \<Rightarrow> int \<Rightarrow> exn + int" where
  "horizontal_step landmarks horizontal_frames =
     bind (mean_y landmarks 11 12) (\<lambda>shoulder_y.
     bind (mean_y landmarks 23 24) (\<lambda>hip_y.
     Inr (if fl_lt (fl_abs (fl_sub shoulder_y hip_y)) (Fin 0.15)
          then horizontal_frames + 1 else horizontal_frames)))"

definition check_horizontal_body_position_body :: "frame list \<Rightarrow> exn + bool" where
  "check_horizontal_body_position_body landmarks_sequence =
     (let total_frames = int (length landmarks_sequence)
      in bind (for_frames horizontal_step landmarks_sequence 0) (\<lambda>horizontal_frames.
           if total_frames = 0 then Inl ZeroDivisionError
           else Inr (real_of_int horizontal_frames / real_of_int total_frames > 0.6)))"

definition check_horizontal_body_position :: "frame list \<Rightarrow> bool" where
  "check_horizontal_body_position landmarks_sequence =
     (case check_horizontal_body_position_body landmarks_sequence of Inr v \<Rightarrow> v | Inl e \<Rightarrow> False)"

definition detect_asymmetric_leg_movement_body :: "frame list \<Rightarrow> exn + bool" where
  "detect_asymmetric_leg_movement_body landmarks_sequence =
     bind (collect both_knees landmarks_sequence) (\<lambda>knees.
       let left_knee_angles = map fst knees; right_knee_angles = map snd knees
       in if length left_knee_angles < 2 then Inr False
          else bind (spread left_knee_angles) (\<lambda>left_range.
               bind (spread right_knee_angles) (\<lambda>right_range.
               Inr (fl_gt (fl_abs (fl_sub left_range right_range)) (Fin 30)))))"

definition detect_asymmetric_leg_movement :: "frame list \<Rightarrow> bool" where
  "detect_asymmetric_leg_movement landmarks_sequence =
     (case detect_asymmetric_leg_movement_body landmarks_sequence of Inr v \<Rightarrow> v | Inl e \<Rightarrow> False)"

section \<open>Exercise classifier\<close>

text \<open>
  \<open>detect_exercise_type\<close>: the metrics and the two position tests catch their own
  faults, and nothing else in the body can raise.
\<close>

definition detect_exercise_type :: "scipy \<Rightarrow> frame list \<Rightarrow> string" where
  "detect_exercise_type lib landmarks_sequence =
     (if landmarks_sequence = [] then ''unknown''
      else
        let hip_movement = analyze_hip_movement lib landmarks_sequence;
            knee_movement = analyze_knee_movement lib landmarks_sequence;
            shoulder_movement = analyze_shoulder_movement lib landmarks_sequence;
            elbow_movement = analyze_elbow_movement lib landmarks_sequence;
            squat_confidence = (0::int);
            pushup_confidence = (0::int);
            lunge_confidence = (0::int);
            squat_confidence =
              (if fl_gt hip_movement (Fin 0.2) \<and> fl_gt knee_movement (Fin 0.25)
               then squat_confidence + 40 else squat_confidence);
            squat_confidence =
              (if fl_gt hip_movement (Fin 0.3) then squat_confidence + 30 else squat_confidence);
            squat_confidence =
              (if fl_gt knee_movement (Fin 0.4) then squat_confidence + 30 else squat_confidence);
            pushup_confidence =
              (if fl_gt elbow_movement (Fin 0.3) \<and> fl_gt shoulder_movement (Fin 0.15)
               then pushup_confidence + 40 else pushup_confidence);
            pushup_confidence =
              (if check_horizontal_body_position landmarks_sequence
               then pushup_confidence + 35 else pushup_confidence);
            pushup_confidence =
              (if fl_gt elbow_movement (Fin 0.4) then pushup_confidence + 25 else pushup_confidence);
            lunge_confidence =
              (if detect_asymmetric_leg_movement landmarks_sequence
               then lunge_confidence + 60 else lunge_confidence);
            lunge_confidence =
              (if fl_gt hip_movement (Fin 0.25) \<and> fl_gt knee_movement (Fin 0.3)
               then lunge_confidence + 40 else lunge_confidence);
            max_confidence = max squat_confidence (max pushup_confidence lunge_confidence)
        in if max_confidence < 50 then ''unknown''
           else if squat_confidence = max_confidence then ''squat''
           else if pushup_confidence = max_confidence then ''push_up''
           else ''lunge'')"

section \<open>Repetition counter\<close>

text \<open>The threshold tables of \<open>__init__\<close> (the entries the counters read).\<close>

definition squat_knee_angle_min :: real where "squat_knee_angle_min = 90"
definition squat_knee_angle_max :: real where "squat_knee_angle_max = 160"
definition pushup_elbow_angle_min :: real where "pushup_elbow_angle_min = 70"
definition pushup_elbow_angle_max :: real where "pushup_elbow_angle_max = 160"

definition count_squat_reps_body :: "scipy \<Rightarrow> frame list \<Rightarrow> exn + int" where
  "count_squat_reps_body lib landmarks_sequence =
     bind (collect avg_knee landmarks_sequence) (\<lambda>knee_angles.
       if length knee_angles < 10 then Inr 0
       else let knee_angles = smooth_data lib knee_angles (min 7 (int (length knee_angles)))
            in bind (find_peaks lib knee_angles (Fin squat_knee_angle_max) 10) (\<lambda>peaks.
               bind (find_peaks lib (map fl_neg knee_angles) (Fin (- squat_knee_angle_min)) 10) (\<lambda>valleys.
               Inr (int (min (length peaks) (length valleys))))))"

definition count_squat_reps :: "scipy \<Rightarrow> frame list \<Rightarrow> int" where
  "count_squat_reps lib landmarks_sequence =
     (case count_squat_reps_body lib landmarks_sequence of Inr n \<Rightarrow> n | Inl e \<Rightarrow> 0)"

definition count_pushup_reps_body :: "scipy \<Rightarrow> frame list \<Rightarrow> exn + int" where
  "count_pushup_reps_body lib landmarks_sequence =
     bind (collect avg_elbow landmarks_sequence) (\<lambda>elbow_angles.
       if length elbow_angles < 10 then Inr 0
       else let elbow_angles = smooth_data lib elbow_angles (min 7 (int (length elbow_angles)))
            in bind (find_peaks lib elbow_angles (Fin pushup_elbow_angle_max) 8) (\<lambda>peaks.
               bind (find_peaks lib (map fl_neg elbow_angles) (Fin (- pushup_elbow_angle_min)) 8) (\<lambda>valleys.
               Inr (int (min (length peaks) (length valleys))))))"

definition count_pushup_reps :: "scipy \<Rightarrow> frame list \<Rightarrow> int" where
  "count_pushup_reps lib landmarks_sequence =
     (case count_pushup_reps_body lib landmarks_sequence of Inr n \<Rightarrow> n | Inl e \<Rightarrow> 0)"

definition count_lunge_reps_body :: "scipy \<Rightarrow> frame list \<Rightarrow> exn + int" where
  "count_lunge_reps_body lib landmarks_sequence =
     bind (collect both_knees landmarks_sequence) (\<lambda>knees.
       let left_knee_angles = map fst knees; right_knee_angles = map snd knees
       in if length left_knee_angles < 10 then Inr 0
          else bind (spread left_knee_angles) (\<lambda>left_range.
               bind (spread right_knee_angles) (\<lambda>right_range.
               let active_leg_angles =
                     (if fl_gt left_range right_range then left_knee_angles else right_knee_angles);
                   active_leg_angles = smooth_data lib active_leg_angles 5
               in bind (find_peaks lib active_leg_angles (Fin 140) 10) (\<lambda>peaks.
                  bind (find_peaks lib (map fl_neg active_leg_angles) (Fin (- 100)) 10) (\<lambda>valleys.
                  Inr (int (min (length peaks) (length valleys))))))))"

definition count_lunge_reps :: "scipy \<Rightarrow> frame list \<Rightarrow> int" where
  "count_lunge_reps lib landmarks_sequence =
     (case count_lunge_reps_body lib landmarks_sequence of Inr n \<Rightarrow> n | Inl e \<Rightarrow> 0)"

definition count_repetitions :: "scipy \<Rightarrow> frame list \<Rightarrow> string \<Rightarrow> int" where
  "count_repetitions lib landmarks_sequence exercise_type =
     (if exercise_type = ''squat'' then count_squat_reps lib landmarks_sequence
      else if exercise_type = ''push_up'' then count_pushup_reps lib landmarks_sequence
      else if exercise_type = ''lunge'' then count_lunge_reps lib landmarks_sequence
      else 0)"

section \<open>Form analyzer\<close>

text \<open>
  Each analysis runs its loop over the frames, counting per rule the frames that violate
  it, then turns the counts into feedback and a score. The counters are the loop's state.
\<close>

record squat_counts =
  knee_cave_frames :: int
  back_lean_frames :: int
  depth_insufficient_frames :: int
  knee_forward_frames :: int

definition squat_step :: "frame \<Rightarrow> squat_counts \<Rightarrow> exn + squat_counts" where
  "squat_step landmarks c =
     bind (getitem landmarks 25) (\<lambda>l25.
     bind (getitem landmarks 23) (\<lambda>l23.
     bind (getitem landmarks 27) (\<lambda>l27.
     let left_knee_x = lm_x l25; left_hip_x = lm_x l23; left_ankle_x = lm_x l27;
         c = (if fl_lt left_knee_x (fl_sub (min2 left_hip_x left_ankle_x) (Fin 0.02))
              then c\<lparr>knee_cave_frames := knee_cave_frames c + 1\<rparr> else c);
         c = (if fl_gt left_knee_x (fl_add left_ankle_x (Fin 0.05))
              then c\<lparr>knee_forward_frames := knee_forward_frames c + 1\<rparr> else c)
     in bind (mean_x landmarks 11 12) (\<lambda>shoulder_x.
        bind (mean_y landmarks 11 12) (\<lambda>shoulder_y.
        bind (mean_x landmarks 23 24) (\<lambda>hip_x.
        bind (mean_y landmarks 23 24) (\<lambda>hip_y.
        let torso_angle =
              fl_abs (fl_div (fl_mul (np_arctan2 (fl_sub shoulder_y hip_y) (fl_sub shoulder_x hip_x))
                                     (Fin 180)) (Fin pi));
            c = (if fl_lt torso_angle (Fin 60)
                 then c\<lparr>back_lean_frames := back_lean_frames c + 1\<rparr> else c)
        in bind (mean_y landmarks 23 24) (\<lambda>hip_y.
           bind (mean_y landmarks 25 26) (\<lambda>knee_y.
           Inr (if fl_lt hip_y (fl_sub knee_y (Fin 0.02))
                then c\<lparr>depth_insufficient_frames := depth_insufficient_frames c + 1\<rparr>
                else c))))))))))"

definition squat_loop :: "frame list \<Rightarrow> exn + squat_counts" where
  "squat_loop landmarks_sequence =
     for_frames squat_step landmarks_sequence
       \<lparr>knee_cave_frames = 0, back_lean_frames = 0, depth_insufficient_frames = 0,
        knee_forward_frames = 0\<rparr>"

text \<open>One rule of the feedback: a message and a penalty when the count is over the share.\<close>

definition feedback_rule :: "int \<Rightarrow> int \<Rightarrow> real \<Rightarrow> string \<Rightarrow> real \<Rightarrow> string list \<times> real \<Rightarrow> string list \<times> real" where
  "feedback_rule frames total_frames share message penalty acc =
     (if real_of_int frames > real_of_int total_frames * share
      then (fst acc @ [message], snd acc - penalty) else acc)"

definition or_praise :: "string \<Rightarrow> string list \<times> real \<Rightarrow> string list \<times> real" where
  "or_praise message acc = (if fst acc = [] then ([message], snd acc) else acc)"

definition analyze_squat_form_body :: "frame list \<Rightarrow> exn + string list \<times> real" where
  "analyze_squat_form_body landmarks_sequence =
     (let total_frames = int (length landmarks_sequence)
      in bind (squat_loop landmarks_sequence) (\<lambda>c.
         let acc = ([], 10);
             acc = feedback_rule (knee_cave_frames c) total_frames 0.15
                     ''Keep your knees aligned with your toes - avoid knee cave'' 2.5 acc;
             acc = feedback_rule (knee_forward_frames c) total_frames 0.2
                     ''Keep your knees behind your toes'' 1.5 acc;
             acc = feedback_rule (back_lean_frames c) total_frames 0.25
                     ''Keep your chest up and back straight'' 2.0 acc;
             acc = feedback_rule (depth_insufficient_frames c) total_frames 0.3
                     ''Go deeper - hips should go below knee level'' 1.5 acc
         in Inr (or_praise ''Excellent squat form! Keep it up!'' acc)))"

definition analyze_squat_form :: "frame list \<Rightarrow> string list \<times> real" where
  "analyze_squat_form landmarks_sequence =
     (case analyze_squat_form_body landmarks_sequence of
        Inr r \<Rightarrow> r | Inl e \<Rightarrow> ([''Error analyzing squat form''], 5.0))"

record pushup_counts =
  hip_sag_frames :: int
  hip_pike_frames :: int
  partial_rom_frames :: int
  head_position_frames :: int

definition pushup_step :: "frame \<Rightarrow> pushup_counts \<Rightarrow> exn + pushup_counts" where
  "pushup_step landmarks c =
     bind (mean_y landmarks 11 12) (\<lambda>shoulder_y.
     bind (mean_y landmarks 23 24) (\<lambda>hip_y.
     bind (mean_y landmarks 27 28) (\<lambda>ankle_y.
     let c = (if fl_gt hip_y (fl_add (max2 shoulder_y ankle_y) (Fin 0.03))
              then c\<lparr>hip_sag_frames := hip_sag_frames c + 1\<rparr> else c);
         c = (if fl_lt hip_y (fl_sub (min2 shoulder_y ankle_y) (Fin 0.03))
              then c\<lparr>hip_pike_frames := hip_pike_frames c + 1\<rparr> else c)
     in bind (angle_at landmarks 11 13 15) (\<lambda>elbow_angle.
        let c = (if fl_gt elbow_angle (Fin 110)
                 then c\<lparr>partial_rom_frames := partial_rom_frames c + 1\<rparr> else c)
        in bind (getitem landmarks 0) (\<lambda>l0.
           let nose_y = lm_y l0
           in Inr (if fl_gt nose_y (fl_add shoulder_y (Fin 0.05))
                   then c\<lparr>head_position_frames := head_position_frames c + 1\<rparr>
                   else c))))))"

definition pushup_loop :: "frame list \<Rightarrow> exn + pushup_counts" where
  "pushup_loop landmarks_sequence =
     for_frames pushup_step landmarks_sequence
       \<lparr>hip_sag_frames = 0, hip_pike_frames = 0, partial_rom_frames = 0,
        head_position_frames = 0\<rparr>"

definition analyze_pushup_form_body :: "frame list \<Rightarrow> exn + string list \<times> real" where
  "analyze_pushup_form_body landmarks_sequence =
     (let total_frames = int (length landmarks_sequence)
      in bind (pushup_loop landmarks_sequence) (\<lambda>c.
         let acc = ([], 10);
             acc = feedback_rule (hip_sag_frames c) total_frames 0.2
                     ''Keep your core tight - avoid hip sag'' 2.5 acc;
             acc = feedback_rule (hip_pike_frames c) total_frames 0.2
                     ''Keep your body straight - avoid piking your hips'' 2.0 acc;
             acc = feedback_rule (partial_rom_frames c) total_frames 0.3
                     ''Go lower - chest should nearly touch the ground'' 2.0 acc;
             acc = feedback_rule (head_position_frames c) total_frames 0.25
                     ''Keep your head in neutral position'' 1.0 acc
         in Inr (or_praise ''Perfect push-up form! Well done!'' acc)))"

definition analyze_pushup_form :: "frame list \<Rightarrow> string list \<times> real" where
  "analyze_pushup_form landmarks_sequence =
     (case analyze_pushup_form_body landmarks_sequence of
        Inr r \<Rightarrow> r | Inl e \<Rightarrow> ([''Error analyzing push-up form''], 5.0))"

record lunge_counts =
  lunge_knee_forward_frames :: int
  torso_lean_frames :: int
  insufficient_depth_frames :: int

definition lunge_step :: "frame \<Rightarrow> lunge_counts \<Rightarrow> exn + lunge_counts" where
  "lunge_step landmarks c =
     bind (getitem landmarks 25) (\<lambda>l25.
     bind (getitem landmarks 27) (\<lambda>l27.
     let left_knee_x = lm_x l25; left_ankle_x = lm_x l27;
         c = (if fl_gt left_knee_x (fl_add left_ankle_x (Fin 0.05))
              then c\<lparr>lunge_knee_forward_frames := lunge_knee_forward_frames c + 1\<rparr> else c)
     in bind (mean_x landmarks 11 12) (\<lambda>shoulder_x.
        bind (mean_x landmarks 23 24) (\<lambda>hip_x.
        let c = (if fl_gt (fl_abs (fl_sub shoulder_x hip_x)) (Fin 0.08)
                 then c\<lparr>torso_lean_frames := torso_lean_frames c + 1\<rparr> else c)
        in bind (getitem landmarks 25) (\<lambda>l25.
           bind (getitem landmarks 26) (\<lambda>l26.
           let front_knee_y = lm_y l25; back_knee_y = lm_y l26
           in Inr (if fl_gt (min2 front_knee_y back_knee_y) (Fin 0.7)
                   then c\<lparr>insufficient_depth_frames := insufficient_depth_frames c + 1\<rparr>
                   else c)))))))"

definition lunge_loop :: "frame list \<Rightarrow> exn + lunge_counts" where
  "lunge_loop landmarks_sequence =
     for_frames lunge_step landmarks_sequence
       \<lparr>lunge_knee_forward_frames = 0, torso_lean_frames = 0, insufficient_depth_frames = 0\<rparr>"

definition analyze_lunge_form_body :: "frame list \<Rightarrow> exn + string list \<times> real" where
  "analyze_lunge_form_body landmarks_sequence =
     (let total_frames = int (length landmarks_sequence)
      in bind (lunge_loop landmarks_sequence) (\<lambda>c.
         let acc = ([], 10);
             acc = feedback_rule (lunge_knee_forward_frames c) total_frames 0.2
                     ''Keep your front knee behind your toes'' 2.0 acc;
             acc = feedback_rule (torso_lean_frames c) total_frames 0.25
                     ''Keep your torso upright'' 1.5 acc;
             acc = feedback_rule (insufficient_depth_frames c) total_frames 0.3
                     ''Go deeper in your lunge'' 1.5 acc
         in Inr (or_praise ''Great lunge form!'' acc)))"

definition analyze_lunge_form :: "frame list \<Rightarrow> string list \<times> real" where
  "analyze_lunge_form landmarks_sequence =
     (case analyze_lunge_form_body landmarks_sequence of
        Inr r \<Rightarrow> r | Inl e \<Rightarrow> ([''Error analyzing lunge form''], 5.0))"

text \<open>
  \<open>analyze_form\<close>: the three analyses catch their own faults and the clamp cannot raise,
  so the \<open>except\<close> of \<open>analyze_form\<close> itself is never taken.
\<close>

definition analyze_form :: "frame list \<Rightarrow> string \<Rightarrow> string list \<times> real" where
  "analyze_form landmarks_sequence exercise_type =
     (let (feedback, form_score) =
            (if exercise_type = ''squat'' then analyze_squat_form landmarks_sequence
             else if exercise_type = ''push_up'' then analyze_pushup_form landmarks_sequence
             else if exercise_type = ''lunge'' then analyze_lunge_form landmarks_sequence
             else ([''Exercise not recognized for detailed analysis''], 5.0))
      in (feedback, max 0.0 (min 10.0 form_score)))"

section \<open>Orchestrator\<close>

record analysis_result =
  exerciseName :: string
  repCount :: int
  feedback :: "string list"
  formScore :: real
  analysisQuality :: "string option"

text \<open>
  What the capture loop of \<open>analyze_video\<close> hands to the analysis: the video did not
  open; or every frame was read, with the pose estimator's answer for each (None when it
  found no pose); or a call of the video or pose library raised, with the message of the
  exception.
\<close>

datatype capture = NotOpened | Frames "frame option list" | Raised string

text \<open>\<open>round(v, 1)\<close>: to the nearest tenth, a tie to the even one.\<close>

definition round_half_even :: "real \<Rightarrow> int" where
  "round_half_even v =
     (let f = \<lfloor>v\<rfloor>; d = v - of_int f
      in if d < 1 / 2 then f else if 1 / 2 < d then f + 1 else if even f then f else f + 1)"

definition py_round1 :: "real \<Rightarrow> real" where
  "py_round1 v = of_int (round_half_even (v * 10)) / 10"

text \<open>
  \<open>analyze_video\<close>. \<open>frame_count\<close> is incremented once for each frame read and each
  frame appends one entry, so after the loop it is the length of \<open>landmarks_sequence\<close>.
  After the loop the three stages catch their own faults, and the quality ratio divides
  by a count that is at least 30.
\<close>

definition analyze_video :: "scipy \<Rightarrow> capture \<Rightarrow> analysis_result" where
  "analyze_video lib cap =
     (case cap of
        NotOpened \<Rightarrow>
          \<lparr>exerciseName = ''error'', repCount = 0, feedback = [''Could not open video file''],
           formScore = 0.0, analysisQuality = None\<rparr>
      | Raised e \<Rightarrow>
          \<lparr>exerciseName = ''error'', repCount = 0, feedback = [''Analysis failed: '' @ e],
           formScore = 0.0, analysisQuality = None\<rparr>
      | Frames landmarks_sequence \<Rightarrow>
          let frame_count = length landmarks_sequence;
              valid_landmarks = List.map_filter (\<lambda>lm. lm) landmarks_sequence
          in if valid_landmarks = [] then
               \<lparr>exerciseName = ''unknown'', repCount = 0,
                feedback = [''Could not detect pose in video''],
                formScore = 0.0, analysisQuality = None\<rparr>
             else if length valid_landmarks < 30 then
               \<lparr>exerciseName = ''unknown'', repCount = 0,
                feedback = [''Video too short for analysis''],
                formScore = 0.0, analysisQuality = None\<rparr>
             else
               let exercise_type = detect_exercise_type lib valid_landmarks;
                   rep_count = count_repetitions lib valid_landmarks exercise_type;
                   (feedback, form_score) = analyze_form valid_landmarks exercise_type
               in \<lparr>exerciseName = exercise_type, repCount = rep_count, feedback = feedback,
                   formScore = py_round1 form_score,
                   analysisQuality =
                     Some (if real (length valid_landmarks) / real frame_count > 0.8
                           then ''high'' else ''medium'')\<rparr>)"

section \<open>The specification's terms\<close>

text \<open>
  The data model of the specification: a frame holds exactly 33 landmarks. The valid
  frames of a sequence are the ones the loops do not skip.
\<close>

definition frames33 :: "frame list \<Rightarrow> bool" where
  "frames33 landmarks_sequence = (\<forall>landmarks \<in> set landmarks_sequence. length landmarks = 33)"

definition valid_frames :: "frame list \<Rightarrow> frame list" where
  "valid_frames landmarks_sequence = filter (\<lambda>landmarks. landmarks \<noteq> []) landmarks_sequence"

text \<open>The angle at joint \<open>j\<close> between the joints \<open>i\<close> and \<open>k\<close> of a frame.\<close>

definition joint_angle :: "frame \<Rightarrow> nat \<Rightarrow> nat \<Rightarrow> nat \<Rightarrow> npfloat" where
  "joint_angle landmarks i j k =
     calculate_angle (xy (landmarks ! i)) (xy (landmarks ! j)) (xy (landmarks ! k))"

definition left_elbow_signal :: "frame list \<Rightarrow> npfloat list" where
  "left_elbow_signal landmarks_sequence = map (\<lambda>f. joint_angle f 11 13 15) landmarks_sequence"

definition left_knee_signal :: "frame list \<Rightarrow> npfloat list" where
  "left_knee_signal landmarks_sequence = map (\<lambda>f. joint_angle f 23 25 27) landmarks_sequence"

definition right_knee_signal :: "frame list \<Rightarrow> npfloat list" where
  "right_knee_signal landmarks_sequence = map (\<lambda>f. joint_angle f 24 26 28) landmarks_sequence"

text \<open>The per-frame mean of the left and the right angle.\<close>

definition avg_elbow_signal :: "frame list \<Rightarrow> npfloat list" where
  "avg_elbow_signal landmarks_sequence =
     map (\<lambda>f. fl_div (fl_add (joint_angle f 11 13 15) (joint_angle f 12 14 16)) (Fin 2))
       landmarks_sequence"

definition avg_knee_signal :: "frame list \<Rightarrow> npfloat list" where
  "avg_knee_signal landmarks_sequence =
     map (\<lambda>f. fl_div (fl_add (joint_angle f 23 25 27) (joint_angle f 24 26 28)) (Fin 2))
       landmarks_sequence"

text \<open>
  An angle metric of section 4.3: the range of the smoothed signal over 180, and 0 when
  there is no range to take.
\<close>

definition angle_movement :: "scipy \<Rightarrow> npfloat list \<Rightarrow> npfloat" where
  "angle_movement lib signal =
     (if length signal < 2 then Fin 0
      else case spread (smooth_data lib signal 5) of
             Inr r \<Rightarrow> fl_div r (Fin 180)
           | Inl e \<Rightarrow> Fin 0)"

text \<open>
  \<open>elbow_movement\<close> in the specification's words: the range of the per-frame average
  elbow angle (the mean of the left and the right elbow angle) of the valid frames.
\<close>

definition elbow_movement_spec :: "scipy \<Rightarrow> frame list \<Rightarrow> npfloat" where
  "elbow_movement_spec lib landmarks_sequence =
     angle_movement lib (avg_elbow_signal (valid_frames landmarks_sequence))"

text \<open>The confidence table of section 4.4 and its decision rule.\<close>

definition squat_points :: "npfloat \<Rightarrow> npfloat \<Rightarrow> int" where
  "squat_points hip_movement knee_movement =
     (if fl_gt hip_movement (Fin 0.2) \<and> fl_gt knee_movement (Fin 0.25) then 40 else 0) +
     (if fl_gt hip_movement (Fin 0.3) then 30 else 0) +
     (if fl_gt knee_movement (Fin 0.4) then 30 else 0)"

definition pushup_points :: "npfloat \<Rightarrow> npfloat \<Rightarrow> bool \<Rightarrow> int" where
  "pushup_points elbow_movement shoulder_movement horizontal =
     (if fl_gt elbow_movement (Fin 0.3) \<and> fl_gt shoulder_movement (Fin 0.15) then 40 else 0) +
     (if horizontal then 35 else 0) +
     (if fl_gt elbow_movement (Fin 0.4) then 25 else 0)"

definition lunge_points :: "bool \<Rightarrow> npfloat \<Rightarrow> npfloat \<Rightarrow> int" where
  "lunge_points asymmetric hip_movement knee_movement =
     (if asymmetric then 60 else 0) +
     (if fl_gt hip_movement (Fin 0.25) \<and> fl_gt knee_movement (Fin 0.3) then 40 else 0)"

definition decide :: "int \<Rightarrow> int \<Rightarrow> int \<Rightarrow> string" where
  "decide squat pushup lunge =
     (let totals = [(''squat'', squat), (''push_up'', pushup), (''lunge'', lunge)];
          top = Max (set (map snd totals))
      in if top < 50 then ''unknown''
         else case find (\<lambda>entry. snd entry = top) totals of
                Some entry \<Rightarrow> fst entry
              | None \<Rightarrow> ''unknown'')"

text \<open>
  The repetition count of section 4.5: the smaller of the number of peaks of at least
  \<open>peak_height\<close> and the number of valleys of at most \<open>valley_height\<close>, a valley
  being a peak of the negated signal; no count when the detector fails.
\<close>

definition extrema_count :: "scipy \<Rightarrow> npfloat list \<Rightarrow> real \<Rightarrow> real \<Rightarrow> int \<Rightarrow> int" where
  "extrema_count lib signal peak_height valley_height spacing =
     (case (find_peaks lib signal (Fin peak_height) spacing,
            find_peaks lib (map fl_neg signal) (Fin (- valley_height)) spacing) of
        (Inr peaks, Inr valleys) \<Rightarrow> int (min (length peaks) (length valleys))
      | _ \<Rightarrow> 0)"

text \<open>The range of a non-empty series (NaN stands for the range of no values).\<close>

definition range_of :: "npfloat list \<Rightarrow> npfloat" where
  "range_of values = (case spread values of Inr r \<Rightarrow> r | Inl e \<Rightarrow> NaN)"

text \<open>The knee-angle series of the leg with the larger angle range.\<close>

definition active_leg_signal :: "frame list \<Rightarrow> npfloat list" where
  "active_leg_signal landmarks_sequence =
     (if fl_gt (range_of (left_knee_signal landmarks_sequence))
               (range_of (right_knee_signal landmarks_sequence))
      then left_knee_signal landmarks_sequence else right_knee_signal landmarks_sequence)"

text \<open>
  The table of section 4.5, with the window each counter passes to the smoothing: squat
  and push-up \<open>min(7, length)\<close>, lunge the default 5.
\<close>

definition reps_spec :: "scipy \<Rightarrow> frame list \<Rightarrow> string \<Rightarrow> int" where
  "reps_spec lib landmarks_sequence exercise_type =
     (let n = length (valid_frames landmarks_sequence)
      in if exercise_type = ''squat'' then
           (if n < 10 then 0
            else extrema_count lib
                   (smooth_data lib (avg_knee_signal landmarks_sequence) (min 7 (int n))) 160 90 10)
         else if exercise_type = ''push_up'' then
           (if n < 10 then 0
            else extrema_count lib
                   (smooth_data lib (avg_elbow_signal landmarks_sequence) (min 7 (int n))) 160 70 8)
         else if exercise_type = ''lunge'' then
           (if n < 10 then 0
            else extrema_count lib
                   (smooth_data lib (active_leg_signal landmarks_sequence) 5) 140 100 10)
         else 0)"

text \<open>
  A ray (the difference of two points) of a size at which the squares of the norm neither
  underflow to zero nor overflow: its larger component is between \<open>2^-500\<close> and
  \<open>2^500\<close> in magnitude.
\<close>

definition ray_in_range :: "real \<Rightarrow> real \<Rightarrow> bool" where
  "ray_in_range p q = (1 / 2 ^ 500 \<le> max \<bar>p\<bar> \<bar>q\<bar> \<and> max \<bar>p\<bar> \<bar>q\<bar> \<le> 2 ^ 500)"

text \<open>Two frames that hold the same landmarks at the listed indices.\<close>

definition same_at :: "nat list \<Rightarrow> frame \<Rightarrow> frame \<Rightarrow> bool" where
  "same_at indices f g = list_all (\<lambda>i. f ! i = g ! i) indices"

text \<open>
  The per-frame tests of the knee-position and range-of-motion rules, written on the
  landmarks they read.
\<close>

definition knee_cave :: "frame \<Rightarrow> bool" where
  "knee_cave f =
     fl_lt (lm_x (f ! 25)) (fl_sub (min2 (lm_x (f ! 23)) (lm_x (f ! 27))) (Fin 0.02))"

definition knee_forward :: "frame \<Rightarrow> bool" where
  "knee_forward f = fl_gt (lm_x (f ! 25)) (fl_add (lm_x (f ! 27)) (Fin 0.05))"

definition partial_rom :: "frame \<Rightarrow> bool" where
  "partial_rom f = fl_gt (joint_angle f 11 13 15) (Fin 110)"

text \<open>The frames of a capture that are not the "no pose" sentinel.\<close>

definition valid_subsequence :: "frame option list \<Rightarrow> frame list" where
  "valid_subsequence landmarks_sequence = map the (filter (\<lambda>lm. lm \<noteq> None) landmarks_sequence)"

section \<open>Worked inputs\<close>

text \<open>
  Poses for the examples, in normalized image coordinates: a person standing with
  straight arms and legs, the same with both hips moved back to knee height (both knees
  at a right angle), with the left hip only, and with the right or the left forearm raised
  to a right angle at the elbow.
\<close>

definition lm :: "real \<Rightarrow> real \<Rightarrow> landmark" where
  "lm a b = Landmark (Fin a) (Fin b) (Fin 0) (Fin 1)"

definition standing :: frame where
  "standing = (replicate 33 (lm (1/2) (1/10)))
     [11 := lm (9/20) (1/5), 12 := lm (11/20) (1/5),
      13 := lm (9/20) (7/20), 14 := lm (11/20) (7/20),
      15 := lm (9/20) (1/2), 16 := lm (11/20) (1/2),
      23 := lm (9/20) (1/2), 24 := lm (11/20) (1/2),
      25 := lm (9/20) (7/10), 26 := lm (11/20) (7/10),
      27 := lm (9/20) (9/10), 28 := lm (11/20) (9/10)]"

definition squatting :: frame where
  "squatting = standing[23 := lm (1/4) (7/10), 24 := lm (7/20) (7/10)]"

definition left_knee_bent :: frame where
  "left_knee_bent = standing[23 := lm (1/4) (7/10)]"

definition right_arm_bent :: frame where
  "right_arm_bent = standing[16 := lm (3/4) (7/20)]"

definition left_arm_bent :: frame where
  "left_arm_bent = standing[15 := lm (1/4) (7/20)]"

text \<open>Standing, with the right knee alone moved far inward of the right hip and ankle.\<close>

definition right_knee_in :: frame where
  "right_knee_in = standing[26 := lm (1/5) (7/10)]"

text \<open>Ten frames of squats, and ten of lunges on the left leg.\<close>

definition squat_cycle :: "frame list" where
  "squat_cycle = [standing, squatting, standing, squatting, standing, squatting,
                  standing, squatting, standing, squatting]"

definition lunge_cycle :: "frame list" where
  "lunge_cycle = [standing, left_knee_bent, standing, left_knee_bent, standing, left_knee_bent,
                  standing, left_knee_bent, standing, left_knee_bent]"

text \<open>
  An instance of the library interface for the examples: the filter checks its arguments
  and returns the series as it is, the peak finder returns every strict local maximum of
  at least the height, whatever the distance.
\<close>

fun local_maxima :: "npfloat list \<Rightarrow> npfloat \<Rightarrow> nat \<Rightarrow> nat list" where
  "local_maxima (a # b # c # rest) height i =
     (if fl_lt a b \<and> fl_lt c b \<and> \<not> fl_lt b height then [Suc i] else []) @
     local_maxima (b # c # rest) height (Suc i)"
| "local_maxima _ height i = []"

definition example_lib :: scipy where
  "example_lib =
     \<lparr>savgol_filter = (\<lambda>data w p.
        if 0 < w \<and> odd w \<and> w \<le> int (length data) \<and> 0 \<le> p \<and> p < w then Inr data
        else Inl ValueError),
      find_peaks = (\<lambda>data height distance.
        if distance < 1 then Inl ValueError else Inr (local_maxima data height 0))\<rparr>"

section \<open>Geometry: the angle primitive\<close>

lemma bind_simps [simp]: "bind (Inr v) f = f v" "bind (Inl e) f = Inl e"
  by (simp_all add: bind_def)

text \<open>The range of a double.\<close>

lemma dbl_facts:
  "0 < dbl_tiny" "dbl_tiny < dbl_over" "dbl_tiny < 1 / 2 ^ 1000" "2 ^ 1002 < dbl_over"
  "dbl_tiny < 1 / 10 ^ 12" "10 ^ 12 < dbl_over"
  by (simp_all add: dbl_tiny_def dbl_over_def)

lemma fl_fin_0 [simp]: "fl_fin 0 = Fin 0"
  using dbl_facts(1,2) by (simp add: fl_fin_def)

lemma fl_fin_exact: "dbl_tiny < \<bar>r\<bar> \<Longrightarrow> \<bar>r\<bar> < dbl_over \<Longrightarrow> fl_fin r = Fin r"
  by (auto simp: fl_fin_def)

lemma fl_fin_tiny: "\<bar>r\<bar> \<le> dbl_tiny \<Longrightarrow> fl_fin r = Fin 0"
  using dbl_facts(1,2) by (auto simp: fl_fin_def)

lemma fl_fin_bounded:
  assumes "\<bar>r\<bar> < dbl_over"
  shows "\<exists>s. fl_fin r = Fin s \<and> \<bar>s\<bar> \<le> \<bar>r\<bar> \<and> (0 \<le> r \<longrightarrow> 0 \<le> s)"
  using assms by (auto simp: fl_fin_def)

lemma fl_fin_not_NaN [simp]: "fl_fin r \<noteq> NaN"
  by (simp add: fl_fin_def)

text \<open>Values of moderate size are not touched.\<close>

lemma fl_fin_moderate [simp]:
  "1 / 1000000000000 \<le> \<bar>r\<bar> \<Longrightarrow> \<bar>r\<bar> \<le> 1000000000000 \<Longrightarrow> fl_fin r = Fin r"
  using dbl_facts(5,6) by (intro fl_fin_exact) simp_all

lemma fl_mul_commute: "fl_mul a b = fl_mul b a"
  by (cases a; cases b) (simp_all add: mult.commute)

lemma fl_add_commute: "fl_add a b = fl_add b a"
  by (cases a; cases b) (simp_all add: add.commute)

lemma calculate_angle_commute: "calculate_angle a b c = calculate_angle c b a"
  by (simp add: calculate_angle_def np_dot_def Let_def fl_mul_commute[of "np_norm (np_sub a b)"]
      fl_mul_commute[of "fst (np_sub a b)"] fl_mul_commute[of "snd (np_sub a b)"])

text \<open>A cosine that is a number gives an angle between 0 and 180 degrees.\<close>

lemma angle_of_cosine:
  assumes "v \<noteq> NaN"
  shows "\<exists>d. np_degrees (np_arccos (np_clip v (- 1) 1)) = Fin d \<and> 0 \<le> d \<and> d \<le> 180"
proof -
  obtain q where q: "np_clip v (- 1) 1 = Fin q" "- 1 \<le> q" "q \<le> 1"
    using assms by (cases v) simp_all
  have lo: "0 \<le> arccos q * 180 / pi"
    using arccos_lbound[OF q(2,3)] by simp
  have "arccos q \<le> pi" using arccos_ubound[OF q(2,3)] .
  then have hi: "arccos q * 180 / pi \<le> 180"
    by (simp add: pos_divide_le_eq)
  show ?thesis using q lo hi by simp
qed


text \<open>Rays whose larger component is between \<open>2^-500\<close> and \<open>2^500\<close>.\<close>

lemma pow_facts:
  "(1::real) / 2 ^ 1000 = (1 / 2 ^ 500) * (1 / 2 ^ 500)" "(2::real) ^ 1000 = 2 ^ 500 * 2 ^ 500"
  "(2::real) ^ 1000 < dbl_over" "(2::real) ^ 1001 < dbl_over" "(2::real) ^ 500 < dbl_over"
  "dbl_tiny < (1::real) / 2 ^ 500" "(2::real) ^ 1002 = 2 ^ 501 * 2 ^ 501"
  "(2::real) ^ 1001 = 2 * 2 ^ 1000" "(2::real) ^ 1001 \<le> 2 ^ 501 * 2 ^ 501"
  by (simp_all add: dbl_tiny_def dbl_over_def)

lemma sq_bounds:
  fixes p :: real
  shows "\<bar>p\<bar> \<le> 2 ^ 500 \<Longrightarrow> p * p \<le> 2 ^ 1000"
    and "1 / 2 ^ 500 \<le> \<bar>p\<bar> \<Longrightarrow> 1 / 2 ^ 1000 \<le> p * p"
proof -
  assume "\<bar>p\<bar> \<le> 2 ^ 500"
  then have "\<bar>p\<bar> * \<bar>p\<bar> \<le> 2 ^ 500 * 2 ^ 500" by (intro mult_mono) simp_all
  then show "p * p \<le> 2 ^ 1000" by (simp only: pow_facts(2) abs_mult_self_eq)
next
  assume "1 / 2 ^ 500 \<le> \<bar>p\<bar>"
  then have "(1 / 2 ^ 500) * (1 / 2 ^ 500) \<le> \<bar>p\<bar> * \<bar>p\<bar>" by (intro mult_mono) simp_all
  then show "1 / 2 ^ 1000 \<le> p * p" by (simp only: pow_facts(1) abs_mult_self_eq)
qed

lemma prod_bound:
  fixes p q :: real
  assumes "\<bar>p\<bar> \<le> 2 ^ 500" "\<bar>q\<bar> \<le> 2 ^ 500"
  shows "\<bar>p * q\<bar> \<le> 2 ^ 1000"
proof -
  have "\<bar>p\<bar> * \<bar>q\<bar> \<le> 2 ^ 500 * 2 ^ 500" using assms by (intro mult_mono) simp_all
  then show ?thesis by (simp only: pow_facts(2) abs_mult)
qed

lemma fl_fin_ray:
  assumes "ray_in_range p q"
  shows "\<exists>p' q'. fl_fin p = Fin p' \<and> fl_fin q = Fin q' \<and> ray_in_range p' q'"
proof -
  have b: "\<bar>p\<bar> \<le> 2 ^ 500" "\<bar>q\<bar> \<le> 2 ^ 500"
    using assms by (simp_all add: ray_in_range_def)
  then have "\<bar>p\<bar> < dbl_over" "\<bar>q\<bar> < dbl_over" using pow_facts(5) by linarith+
  then obtain p' q' where p': "fl_fin p = Fin p'" "\<bar>p'\<bar> \<le> \<bar>p\<bar>"
      and q': "fl_fin q = Fin q'" "\<bar>q'\<bar> \<le> \<bar>q\<bar>"
    using fl_fin_bounded[of p] fl_fin_bounded[of q] by blast
  have up: "max \<bar>p'\<bar> \<bar>q'\<bar> \<le> 2 ^ 500" using p' q' b by simp
  consider "1 / 2 ^ 500 \<le> \<bar>p\<bar>" | "1 / 2 ^ 500 \<le> \<bar>q\<bar>"
    using assms by (auto simp: ray_in_range_def max_def split: if_splits)
  then have "1 / 2 ^ 500 \<le> max \<bar>p'\<bar> \<bar>q'\<bar>"
  proof cases
    case 1
    then have "dbl_tiny < \<bar>p\<bar>" using pow_facts(6) by linarith
    then have "fl_fin p = Fin p" using \<open>\<bar>p\<bar> < dbl_over\<close> by (rule fl_fin_exact)
    with p' 1 show ?thesis by simp
  next
    case 2
    then have "dbl_tiny < \<bar>q\<bar>" using pow_facts(6) by linarith
    then have "fl_fin q = Fin q" using \<open>\<bar>q\<bar> < dbl_over\<close> by (rule fl_fin_exact)
    with q' 2 show ?thesis by simp
  qed
  with up p' q' show ?thesis unfolding ray_in_range_def by blast
qed

lemma fl_fin_square:
  fixes p :: real
  assumes "\<bar>p\<bar> \<le> 2 ^ 500"
  shows "\<exists>s. fl_fin (p * p) = Fin s \<and> 0 \<le> s \<and> s \<le> 2 ^ 1000 \<and>
             (1 / 2 ^ 500 \<le> \<bar>p\<bar> \<longrightarrow> 1 / 2 ^ 1000 \<le> s)"
proof -
  have le: "p * p \<le> 2 ^ 1000" using assms by (rule sq_bounds(1))
  have nn: "0 \<le> p * p" by simp
  then have a: "\<bar>p * p\<bar> < dbl_over" using le pow_facts(3) by (simp only: abs_of_nonneg)
  show ?thesis
  proof (cases "1 / 2 ^ 500 \<le> \<bar>p\<bar>")
    case True
    then have lo: "1 / 2 ^ 1000 \<le> p * p" by (rule sq_bounds(2))
    then have "dbl_tiny < \<bar>p * p\<bar>" using dbl_facts(3) nn by (simp only: abs_of_nonneg)
    then have "fl_fin (p * p) = Fin (p * p)" using a by (rule fl_fin_exact)
    with nn le lo show ?thesis by blast
  next
    case False
    from fl_fin_bounded[OF a] obtain s where "fl_fin (p * p) = Fin s" "\<bar>s\<bar> \<le> \<bar>p * p\<bar>" "0 \<le> s"
      using nn by blast
    moreover then have "s \<le> 2 ^ 1000" using le nn by (simp only: abs_of_nonneg)
    ultimately show ?thesis using False by blast
  qed
qed

lemma np_norm_in_range:
  assumes "ray_in_range p q"
  shows "\<exists>n. np_norm (Fin p, Fin q) = Fin n \<and> 1 / 2 ^ 500 \<le> n \<and> n \<le> 2 ^ 501"
proof -
  have b: "\<bar>p\<bar> \<le> 2 ^ 500" "\<bar>q\<bar> \<le> 2 ^ 500"
    using assms by (simp_all add: ray_in_range_def)
  obtain s1 where s1: "fl_fin (p * p) = Fin s1" "0 \<le> s1" "s1 \<le> 2 ^ 1000"
      "1 / 2 ^ 500 \<le> \<bar>p\<bar> \<longrightarrow> 1 / 2 ^ 1000 \<le> s1"
    using fl_fin_square[OF b(1)] by blast
  obtain s2 where s2: "fl_fin (q * q) = Fin s2" "0 \<le> s2" "s2 \<le> 2 ^ 1000"
      "1 / 2 ^ 500 \<le> \<bar>q\<bar> \<longrightarrow> 1 / 2 ^ 1000 \<le> s2"
    using fl_fin_square[OF b(2)] by blast
  have "1 / 2 ^ 500 \<le> \<bar>p\<bar> \<or> 1 / 2 ^ 500 \<le> \<bar>q\<bar>"
    using assms by (auto simp: ray_in_range_def max_def split: if_splits)
  then have lo: "1 / 2 ^ 1000 \<le> s1 + s2" using s1 s2 by linarith
  have hi: "s1 + s2 \<le> 2 ^ 1001" using s1(3) s2(3) by (simp only: pow_facts(8))
  have nn: "0 \<le> s1 + s2" using s1 s2 by simp
  have "dbl_tiny < \<bar>s1 + s2\<bar>" using lo dbl_facts(3) nn by (simp only: abs_of_nonneg)
  moreover have "\<bar>s1 + s2\<bar> < dbl_over" using hi pow_facts(4) nn by (simp only: abs_of_nonneg)
  ultimately have e: "fl_fin (s1 + s2) = Fin (s1 + s2)" by (rule fl_fin_exact)
  have n: "np_norm (Fin p, Fin q) = Fin (sqrt (s1 + s2))"
    using nn by (simp add: np_norm_def s1(1) s2(1) e)
  have "(1 / 2 ^ 500)\<^sup>2 \<le> s1 + s2"
    using lo by (simp only: power2_eq_square pow_facts(1)[symmetric])
  then have l: "1 / 2 ^ 500 \<le> sqrt (s1 + s2)" by (rule real_le_rsqrt)
  have "s1 + s2 \<le> (2 ^ 501)\<^sup>2"
    using hi pow_facts(9) by (simp only: power2_eq_square)
  then have u: "sqrt (s1 + s2) \<le> 2 ^ 501" by (intro real_le_lsqrt) simp_all
  show ?thesis using n l u by blast
qed

lemma np_dot_finite:
  assumes "ray_in_range p1 q1" "ray_in_range p2 q2"
  shows "\<exists>t. np_dot (Fin p1, Fin q1) (Fin p2, Fin q2) = Fin t"
proof -
  have b: "\<bar>p1\<bar> \<le> 2 ^ 500" "\<bar>q1\<bar> \<le> 2 ^ 500" "\<bar>p2\<bar> \<le> 2 ^ 500" "\<bar>q2\<bar> \<le> 2 ^ 500"
    using assms by (simp_all add: ray_in_range_def)
  have "\<bar>p1 * p2\<bar> < dbl_over" "\<bar>q1 * q2\<bar> < dbl_over"
    using prod_bound[OF b(1) b(3)] prod_bound[OF b(2) b(4)] pow_facts(3) by linarith+
  then obtain u1 u2 where u: "fl_fin (p1 * p2) = Fin u1" "\<bar>u1\<bar> \<le> \<bar>p1 * p2\<bar>"
      "fl_fin (q1 * q2) = Fin u2" "\<bar>u2\<bar> \<le> \<bar>q1 * q2\<bar>"
    using fl_fin_bounded[of "p1 * p2"] fl_fin_bounded[of "q1 * q2"] by blast
  have "\<bar>u1 + u2\<bar> \<le> 2 ^ 1001"
    using u prod_bound[OF b(1) b(3)] prod_bound[OF b(2) b(4)]
    by (simp only: pow_facts(8))
  then have "\<bar>u1 + u2\<bar> < dbl_over" using pow_facts(4) by linarith
  then obtain t where "fl_fin (u1 + u2) = Fin t" using fl_fin_bounded by blast
  then show ?thesis by (simp add: np_dot_def u)
qed

text \<open>
  C9, as amended. For points with finite coordinates whose two rays each have a
  component of magnitude at least \<open>2^-500\<close> and none above \<open>2^500\<close> (so that no square
  underflows to a zero norm or overflows), the angle is a finite number of degrees
  between 0 and 180, and swapping the two outer points gives the same angle.
\<close>

theorem calculate_angle_range_symmetric:
  assumes "ray_in_range (ax - bx) (ay - by)" and "ray_in_range (cx - bx) (cy - by)"
  shows "\<exists>d. calculate_angle (Fin ax, Fin ay) (Fin bx, Fin by) (Fin cx, Fin cy) = Fin d \<and>
             0 \<le> d \<and> d \<le> 180 \<and>
             calculate_angle (Fin cx, Fin cy) (Fin bx, Fin by) (Fin ax, Fin ay) = Fin d"
proof -
  obtain p1 q1 where ba: "fl_fin (ax - bx) = Fin p1" "fl_fin (ay - by) = Fin q1"
      and r1: "ray_in_range p1 q1"
    using fl_fin_ray[OF assms(1)] by blast
  obtain p2 q2 where bc: "fl_fin (cx - bx) = Fin p2" "fl_fin (cy - by) = Fin q2"
      and r2: "ray_in_range p2 q2"
    using fl_fin_ray[OF assms(2)] by blast
  have sa: "np_sub (Fin ax, Fin ay) (Fin bx, Fin by) = (Fin p1, Fin q1)"
    using ba by (simp add: np_sub_def fl_sub_def)
  have sc: "np_sub (Fin cx, Fin cy) (Fin bx, Fin by) = (Fin p2, Fin q2)"
    using bc by (simp add: np_sub_def fl_sub_def)
  obtain n1 where n1: "np_norm (Fin p1, Fin q1) = Fin n1" "1 / 2 ^ 500 \<le> n1" "n1 \<le> 2 ^ 501"
    using np_norm_in_range[OF r1] by blast
  obtain n2 where n2: "np_norm (Fin p2, Fin q2) = Fin n2" "1 / 2 ^ 500 \<le> n2" "n2 \<le> 2 ^ 501"
    using np_norm_in_range[OF r2] by blast
  have pos: "0 < n1" "0 < n2"
    using n1(2) n2(2) by (smt (verit) divide_pos_pos zero_less_power zero_less_numeral zero_less_one)+
  have "(1 / 2 ^ 500) * (1 / 2 ^ 500) \<le> n1 * n2"
    using n1(2) n2(2) by (intro mult_mono) simp_all
  then have lo: "1 / 2 ^ 1000 \<le> n1 * n2" by (simp only: pow_facts(1))
  have "n1 * n2 \<le> 2 ^ 501 * 2 ^ 501"
    using n1(3) n2(3) pos by (intro mult_mono) simp_all
  then have hi: "n1 * n2 \<le> 2 ^ 1002" by (simp only: pow_facts(7))
  have nn: "0 \<le> n1 * n2" using pos by simp
  have "dbl_tiny < \<bar>n1 * n2\<bar>" using lo dbl_facts(3) nn by (simp only: abs_of_nonneg)
  moreover have "\<bar>n1 * n2\<bar> < dbl_over" using hi dbl_facts(4) nn by (simp only: abs_of_nonneg)
  ultimately have m: "fl_mul (Fin n1) (Fin n2) = Fin (n1 * n2)"
    by (simp add: fl_fin_exact)
  have m0: "n1 * n2 \<noteq> 0" using pos by simp
  obtain t where t: "np_dot (Fin p1, Fin q1) (Fin p2, Fin q2) = Fin t"
    using np_dot_finite[OF r1 r2] by blast
  have "fl_div (Fin t) (Fin (n1 * n2)) \<noteq> NaN"
    using m0 by simp
  from angle_of_cosine[OF this] obtain d where
    d: "np_degrees (np_arccos (np_clip (fl_div (Fin t) (Fin (n1 * n2))) (- 1) 1)) = Fin d"
      "0 \<le> d" "d \<le> 180"
    by blast
  have a: "calculate_angle (Fin ax, Fin ay) (Fin bx, Fin by) (Fin cx, Fin cy) = Fin d"
    unfolding calculate_angle_def Let_def sa sc n1(1) n2(1) m t by (rule d(1))
  show ?thesis
    using a d(2,3) calculate_angle_commute[of "(Fin cx, Fin cy)" "(Fin bx, Fin by)" "(Fin ax, Fin ay)"]
    by simp
qed

theorem calculate_angle_range_symmetric_witness:
  "\<exists>d. calculate_angle (Fin (1/2), Fin (1/5)) (Fin (1/2), Fin (2/5)) (Fin (7/10), Fin (2/5)) = Fin d \<and>
       0 \<le> d \<and> d \<le> 180 \<and>
       calculate_angle (Fin (7/10), Fin (2/5)) (Fin (1/2), Fin (2/5)) (Fin (1/2), Fin (1/5)) = Fin d"
proof -
  have 1: "ray_in_range (1/2 - 1/2) (1/5 - 2/5)" by (simp add: ray_in_range_def)
  have 2: "ray_in_range (7/10 - 1/2) (2/5 - 2/5)" by (simp add: ray_in_range_def)
  show ?thesis
    using calculate_angle_range_symmetric[OF 1 2] by simp
qed

text \<open>
  C9, as stated for all non-degenerate triples, fails: with rays of length \<open>2^-600\<close>
  along the two axes, B is distinct from A and from C, the squares underflow to 0, both
  norms are 0 and the cosine is 0/0, so the result is NaN, which is no angle in [0, 180].
\<close>

theorem calculate_angle_underflow_counterexample:
  "(Fin (1 / 2 ^ 600), Fin 0) \<noteq> (Fin 0, Fin 0) \<and> (Fin 0, Fin (1 / 2 ^ 600)) \<noteq> (Fin 0, Fin 0) \<and>
   calculate_angle (Fin (1 / 2 ^ 600), Fin 0) (Fin 0, Fin 0) (Fin 0, Fin (1 / 2 ^ 600)) = NaN"
proof -
  have e: "fl_fin (1 / 2 ^ 600) = Fin (1 / 2 ^ 600)"
    by (rule fl_fin_exact) (simp_all add: dbl_tiny_def dbl_over_def)
  have z: "fl_fin (1 / 2 ^ 600 * (1 / 2 ^ 600)) = Fin 0"
    by (rule fl_fin_tiny) (simp add: dbl_tiny_def)
  have sa: "np_sub (Fin (1 / 2 ^ 600), Fin 0) (Fin 0, Fin 0) = (Fin (1 / 2 ^ 600), Fin 0)"
    by (simp add: np_sub_def fl_sub_def e del: power_numeral)
  have sc: "np_sub (Fin 0, Fin (1 / 2 ^ 600)) (Fin 0, Fin 0) = (Fin 0, Fin (1 / 2 ^ 600))"
    by (simp add: np_sub_def fl_sub_def e del: power_numeral)
  have n1: "np_norm (Fin (1 / 2 ^ 600), Fin 0) = Fin 0"
    unfolding np_norm_def fst_conv snd_conv fl_mul.simps z by simp
  have n2: "np_norm (Fin 0, Fin (1 / 2 ^ 600)) = Fin 0"
    unfolding np_norm_def fst_conv snd_conv fl_mul.simps z by simp
  have dt: "np_dot (Fin (1 / 2 ^ 600), Fin 0) (Fin 0, Fin (1 / 2 ^ 600)) = Fin 0"
    by (simp add: np_dot_def)
  have "calculate_angle (Fin (1 / 2 ^ 600), Fin 0) (Fin 0, Fin 0) (Fin 0, Fin (1 / 2 ^ 600)) = NaN"
    unfolding calculate_angle_def Let_def sa sc n1 n2 dt by simp
  then show ?thesis by simp
qed


lemma fl_mul_zero: "fl_mul (Fin 0) v = Fin 0 \<or> fl_mul (Fin 0) v = NaN"
  by (cases v) simp_all

text \<open>
  C1, what the code does on a degenerate input. When the vertex B coincides with A or
  with C, at finite coordinates, \<open>calculate_angle\<close> returns NaN, not 0.0: the zero norm
  makes the cosine 0/0, numpy returns NaN for it without raising, and the \<open>except\<close> that
  would return 0.0 is not reached. The other outer point may be any point, finite or not.
\<close>

theorem calculate_angle_degenerate_nan:
  "calculate_angle (Fin bx, Fin by) (Fin bx, Fin by) c = NaN \<and>
   calculate_angle a (Fin bx, Fin by) (Fin bx, Fin by) = NaN"
proof -
  have n: "calculate_angle (Fin bx, Fin by) (Fin bx, Fin by) p = NaN" for p
  proof -
    have sa: "np_sub (Fin bx, Fin by) (Fin bx, Fin by) = (Fin 0, Fin 0)"
      by (simp add: np_sub_def fl_sub_def)
    have n0: "np_norm (Fin 0, Fin 0) = Fin 0"
      by (simp add: np_norm_def)
    obtain u v where bc: "np_sub p (Fin bx, Fin by) = (u, v)"
      by (cases "np_sub p (Fin bx, Fin by)")
    have "fl_add (fl_mul (Fin 0) u) (fl_mul (Fin 0) v) = Fin 0 \<or>
          fl_add (fl_mul (Fin 0) u) (fl_mul (Fin 0) v) = NaN"
      using fl_mul_zero[of u] fl_mul_zero[of v] by auto
    then have dt: "np_dot (Fin 0, Fin 0) (u, v) = Fin 0 \<or> np_dot (Fin 0, Fin 0) (u, v) = NaN"
      by (simp add: np_dot_def)
    have dn: "fl_mul (Fin 0) (np_norm (u, v)) = Fin 0 \<or> fl_mul (Fin 0) (np_norm (u, v)) = NaN"
      by (rule fl_mul_zero)
    have "fl_div (np_dot (Fin 0, Fin 0) (u, v)) (fl_mul (Fin 0) (np_norm (u, v))) = NaN"
      using dt dn by auto
    then show ?thesis
      unfolding calculate_angle_def Let_def sa bc n0 by simp
  qed
  show ?thesis
    using n[of c] n[of a] calculate_angle_commute[of a "(Fin bx, Fin by)" "(Fin bx, Fin by)"]
    by simp
qed

text \<open>Angles of rays along the axes, at lengths between a thousandth and a thousand.\<close>

lemma moderate_prod:
  fixes p q :: real
  assumes "1 / 1000 \<le> \<bar>p\<bar>" "\<bar>p\<bar> \<le> 1000" "1 / 1000 \<le> \<bar>q\<bar>" "\<bar>q\<bar> \<le> 1000"
  shows "fl_fin (p * q) = Fin (p * q)"
proof -
  have "(1 / 1000) * (1 / 1000) \<le> \<bar>p\<bar> * \<bar>q\<bar>" using assms by (intro mult_mono) simp_all
  moreover have "\<bar>p\<bar> * \<bar>q\<bar> \<le> 1000 * 1000" using assms by (intro mult_mono) simp_all
  ultimately show ?thesis by (intro fl_fin_moderate) (simp_all add: abs_mult)
qed

lemma norm_axis:
  assumes "1 / 1000 \<le> \<bar>p\<bar>" "\<bar>p\<bar> \<le> 1000"
  shows "np_norm (Fin 0, Fin p) = Fin \<bar>p\<bar>" "np_norm (Fin p, Fin 0) = Fin \<bar>p\<bar>"
  using moderate_prod[OF assms assms] by (simp_all add: np_norm_def real_sqrt_abs2 not_less)

lemma calculate_angle_vertical:
  assumes "1 / 1000 \<le> \<bar>ay - by\<bar>" "\<bar>ay - by\<bar> \<le> 1000"
      "1 / 1000 \<le> \<bar>cy - by\<bar>" "\<bar>cy - by\<bar> \<le> 1000"
  shows "calculate_angle (Fin u, Fin ay) (Fin u, Fin by) (Fin u, Fin cy) =
         Fin (if (ay - by) * (cy - by) < 0 then 180 else 0)"
proof -
  define p q where "p = ay - by" and "q = cy - by"
  have b: "1 / 1000 \<le> \<bar>p\<bar>" "\<bar>p\<bar> \<le> 1000" "1 / 1000 \<le> \<bar>q\<bar>" "\<bar>q\<bar> \<le> 1000"
    using assms by (simp_all add: p_def q_def)
  have sa: "np_sub (Fin u, Fin ay) (Fin u, Fin by) = (Fin 0, Fin p)"
    using fl_fin_moderate[of p] b by (simp add: np_sub_def fl_sub_def p_def)
  have sc: "np_sub (Fin u, Fin cy) (Fin u, Fin by) = (Fin 0, Fin q)"
    using fl_fin_moderate[of q] b by (simp add: np_sub_def fl_sub_def q_def)
  have dt: "np_dot (Fin 0, Fin p) (Fin 0, Fin q) = Fin (p * q)"
    using moderate_prod[OF b] by (simp add: np_dot_def)
  have pq: "fl_fin (\<bar>p\<bar> * \<bar>q\<bar>) = Fin (\<bar>p\<bar> * \<bar>q\<bar>)"
    using moderate_prod[of "\<bar>p\<bar>" "\<bar>q\<bar>"] b by simp
  have nz: "\<bar>p\<bar> * \<bar>q\<bar> \<noteq> 0" using b by auto
  have "p * q \<noteq> 0" using nz by simp
  then have r: "p * q / (\<bar>p\<bar> * \<bar>q\<bar>) = (if p * q < 0 then - 1 else 1)"
    unfolding abs_mult[symmetric] by (simp add: abs_if)
  have "calculate_angle (Fin u, Fin ay) (Fin u, Fin by) (Fin u, Fin cy) =
          Fin (if p * q < 0 then 180 else 0)"
    unfolding calculate_angle_def Let_def sa sc dt norm_axis(1)[OF b(1,2)] norm_axis(1)[OF b(3,4)]
    using nz by (simp add: pq r)
  then show ?thesis by (simp only: p_def q_def)
qed

lemma calculate_angle_right:
  assumes "1 / 1000 \<le> \<bar>p\<bar>" "\<bar>p\<bar> \<le> 1000" "1 / 1000 \<le> \<bar>q\<bar>" "\<bar>q\<bar> \<le> 1000"
  shows "np_degrees (np_arccos (np_clip
           (fl_div (np_dot (Fin p, Fin 0) (Fin 0, Fin q))
                   (fl_mul (np_norm (Fin p, Fin 0)) (np_norm (Fin 0, Fin q)))) (- 1) 1)) = Fin 90"
    and "np_degrees (np_arccos (np_clip
           (fl_div (np_dot (Fin 0, Fin p) (Fin q, Fin 0))
                   (fl_mul (np_norm (Fin 0, Fin p)) (np_norm (Fin q, Fin 0)))) (- 1) 1)) = Fin 90"
proof -
  have pq: "fl_fin (\<bar>p\<bar> * \<bar>q\<bar>) = Fin (\<bar>p\<bar> * \<bar>q\<bar>)"
    using moderate_prod[of "\<bar>p\<bar>" "\<bar>q\<bar>"] assms by simp
  have nz: "\<bar>p\<bar> * \<bar>q\<bar> \<noteq> 0" using assms by auto
  show "np_degrees (np_arccos (np_clip
           (fl_div (np_dot (Fin p, Fin 0) (Fin 0, Fin q))
                   (fl_mul (np_norm (Fin p, Fin 0)) (np_norm (Fin 0, Fin q)))) (- 1) 1)) = Fin 90"
    unfolding norm_axis[OF assms(1,2)] norm_axis[OF assms(3,4)]
    using nz by (simp add: np_dot_def pq)
  show "np_degrees (np_arccos (np_clip
           (fl_div (np_dot (Fin 0, Fin p) (Fin q, Fin 0))
                   (fl_mul (np_norm (Fin 0, Fin p)) (np_norm (Fin q, Fin 0)))) (- 1) 1)) = Fin 90"
    unfolding norm_axis[OF assms(1,2)] norm_axis[OF assms(3,4)]
    using nz by (simp add: np_dot_def pq)
qed

lemma calculate_angle_perp:
  assumes "1 / 1000 \<le> \<bar>p\<bar>" "\<bar>p\<bar> \<le> 1000" "1 / 1000 \<le> \<bar>q\<bar>" "\<bar>q\<bar> \<le> 1000"
  shows "ax - bx = p \<Longrightarrow> cy - by = q \<Longrightarrow>
         calculate_angle (Fin ax, Fin by) (Fin bx, Fin by) (Fin bx, Fin cy) = Fin 90"
    and "ay - by = p \<Longrightarrow> cx - bx = q \<Longrightarrow>
         calculate_angle (Fin bx, Fin ay) (Fin bx, Fin by) (Fin cx, Fin by) = Fin 90"
proof -
  assume d: "ax - bx = p" "cy - by = q"
  have sa: "np_sub (Fin ax, Fin by) (Fin bx, Fin by) = (Fin p, Fin 0)"
    using fl_fin_moderate[of p] assms d by (simp add: np_sub_def fl_sub_def)
  have sc: "np_sub (Fin bx, Fin cy) (Fin bx, Fin by) = (Fin 0, Fin q)"
    using fl_fin_moderate[of q] assms d by (simp add: np_sub_def fl_sub_def)
  show "calculate_angle (Fin ax, Fin by) (Fin bx, Fin by) (Fin bx, Fin cy) = Fin 90"
    unfolding calculate_angle_def Let_def sa sc by (rule calculate_angle_right(1)[OF assms])
next
  assume d: "ay - by = p" "cx - bx = q"
  have sa: "np_sub (Fin bx, Fin ay) (Fin bx, Fin by) = (Fin 0, Fin p)"
    using fl_fin_moderate[of p] assms d by (simp add: np_sub_def fl_sub_def)
  have sc: "np_sub (Fin cx, Fin by) (Fin bx, Fin by) = (Fin q, Fin 0)"
    using fl_fin_moderate[of q] assms d by (simp add: np_sub_def fl_sub_def)
  show "calculate_angle (Fin bx, Fin ay) (Fin bx, Fin by) (Fin cx, Fin by) = Fin 90"
    unfolding calculate_angle_def Let_def sa sc by (rule calculate_angle_right(2)[OF assms])
qed

lemma calculate_angle_perp_x:
  "1 / 1000 \<le> \<bar>ax - bx\<bar> \<Longrightarrow> \<bar>ax - bx\<bar> \<le> 1000 \<Longrightarrow>
   1 / 1000 \<le> \<bar>cy - by\<bar> \<Longrightarrow> \<bar>cy - by\<bar> \<le> 1000 \<Longrightarrow>
   calculate_angle (Fin ax, Fin by) (Fin bx, Fin by) (Fin bx, Fin cy) = Fin 90"
  by (rule calculate_angle_perp(1)[OF _ _ _ _ refl refl])

lemma calculate_angle_perp_y:
  "1 / 1000 \<le> \<bar>ay - by\<bar> \<Longrightarrow> \<bar>ay - by\<bar> \<le> 1000 \<Longrightarrow>
   1 / 1000 \<le> \<bar>cx - bx\<bar> \<Longrightarrow> \<bar>cx - bx\<bar> \<le> 1000 \<Longrightarrow>
   calculate_angle (Fin bx, Fin ay) (Fin bx, Fin by) (Fin cx, Fin by) = Fin 90"
  by (rule calculate_angle_perp(2)[OF _ _ _ _ refl refl])


section \<open>Smoothing\<close>

text \<open>
  C8. When the filter of the library returns a series as long as its input (scipy's
  contract), \<open>smooth_data\<close> returns a series as long as its input, for every series and
  window; and a series shorter than the window is returned unchanged, whatever the
  library does. A fault of the filter falls back to the input.
\<close>

theorem smooth_data_length:
  "((\<forall>w p smoothed. savgol_filter lib data w p = Inr smoothed \<longrightarrow> length smoothed = length data)
      \<longrightarrow> length (smooth_data lib data window_length) = length data) \<and>
   (int (length data) < window_length \<longrightarrow> smooth_data lib data window_length = data)"
  by (auto simp: smooth_data_def Let_def split: sum.splits)

theorem smooth_data_length_witness:
  "length (smooth_data example_lib [Fin 180, Fin 90, Fin 180, Fin 90, Fin 180, Fin 90] 5) = 6 \<and>
   smooth_data example_lib [Fin 180, Fin 90, Fin 180] 5 = [Fin 180, Fin 90, Fin 180]"
proof -
  have h: "\<forall>w p smoothed. savgol_filter example_lib [Fin 180, Fin 90, Fin 180, Fin 90, Fin 180, Fin 90] w p = Inr smoothed
      \<longrightarrow> length smoothed = length [Fin 180, Fin 90, Fin 180, Fin 90, Fin 180, Fin 90]"
    by (auto simp: example_lib_def split: if_splits)
  show ?thesis
    using h smooth_data_length[of example_lib "[Fin 180, Fin 90, Fin 180, Fin 90, Fin 180, Fin 90]" 5]
      smooth_data_length[of example_lib "[Fin 180, Fin 90, Fin 180]" 5]
    by simp
qed

section \<open>Classifier\<close>

lemma decide_eq:
  "decide a b c =
     (if max a (max b c) < 50 then ''unknown''
      else if a = max a (max b c) then ''squat''
      else if b = max a (max b c) then ''push_up'' else ''lunge'')"
  by (auto simp: decide_def Let_def max_def)

lemma for_frames_Nil_collect [simp]: "collect f [] = Inr []"
  by (simp add: collect_def)

lemma metrics_empty:
  "analyze_hip_movement lib [] = Fin 0" "analyze_knee_movement lib [] = Fin 0"
  "analyze_shoulder_movement lib [] = Fin 0" "analyze_elbow_movement lib [] = Fin 0"
  "check_horizontal_body_position [] = False" "detect_asymmetric_leg_movement [] = False"
  by (simp_all add: analyze_hip_movement_def analyze_hip_movement_body_def
        analyze_knee_movement_def analyze_knee_movement_body_def
        analyze_shoulder_movement_def analyze_shoulder_movement_body_def
        analyze_elbow_movement_def analyze_elbow_movement_body_def
        check_horizontal_body_position_def check_horizontal_body_position_body_def
        detect_asymmetric_leg_movement_def detect_asymmetric_leg_movement_body_def)

lemma if_add: "(if c then x + k else x) = x + (if c then k else (0::int))"
  by simp

text \<open>
  C4. \<open>detect_exercise_type\<close> awards the points of the table to the three exercises
  from the six metrics and decides as specified: unknown when the largest total is below
  50, otherwise the first of squat, push-up, lunge whose total is the largest.
\<close>

theorem detect_exercise_type_table:
  "detect_exercise_type lib landmarks_sequence =
     decide
       (squat_points (analyze_hip_movement lib landmarks_sequence)
                     (analyze_knee_movement lib landmarks_sequence))
       (pushup_points (analyze_elbow_movement lib landmarks_sequence)
                      (analyze_shoulder_movement lib landmarks_sequence)
                      (check_horizontal_body_position landmarks_sequence))
       (lunge_points (detect_asymmetric_leg_movement landmarks_sequence)
                     (analyze_hip_movement lib landmarks_sequence)
                     (analyze_knee_movement lib landmarks_sequence))"
proof (cases "landmarks_sequence = []")
  case True
  have "decide 0 0 0 = ''unknown''"
    by (simp add: decide_eq)
  then show ?thesis
    by (simp add: True detect_exercise_type_def metrics_empty squat_points_def
        pushup_points_def lunge_points_def fl_gt_def)
next
  case False
  show ?thesis
    unfolding detect_exercise_type_def Let_def if_add decide_eq squat_points_def
      pushup_points_def lunge_points_def
    by (simp only: False if_False add_0)
qed

section \<open>Invariants of the result\<close>

lemma round_half_even_bounds: "\<lfloor>v\<rfloor> \<le> round_half_even v \<and> round_half_even v \<le> \<lceil>v\<rceil>"
  unfolding round_half_even_def Let_def
  apply (auto)
  apply linarith+
  done

lemma py_round1_range: assumes "0 \<le> v" "v \<le> 10" shows "0 \<le> py_round1 v \<and> py_round1 v \<le> 10"
proof -
  have "0 \<le> \<lfloor>v * 10\<rfloor>" using assms by simp
  then have lo: "0 \<le> round_half_even (v * 10)" using round_half_even_bounds[of "v * 10"] by linarith
  have "\<lceil>v * 10\<rceil> \<le> 100" using assms by (simp add: ceiling_le_iff)
  then have hi: "round_half_even (v * 10) \<le> 100" using round_half_even_bounds[of "v * 10"] by linarith
  show ?thesis using lo hi by (simp add: py_round1_def)
qed



lemma bindE:
  assumes "bind m f = Inr r"
  obtains v where "m = Inr v" "f v = Inr r"
  using assms by (cases m) (auto simp: bind_def)

lemma extrema_tail_nonneg:
  "bind p (\<lambda>peaks. bind v (\<lambda>valleys. Inr (int (min (length peaks) (length valleys))))) = Inr n
     \<Longrightarrow> 0 \<le> n"
  by (cases p; cases v) auto

lemma squat_body_nonneg: "count_squat_reps_body lib s = Inr n \<Longrightarrow> 0 \<le> n"
  unfolding count_squat_reps_body_def Let_def
  apply (erule bindE)
  apply (simp split: if_splits)
  apply (erule extrema_tail_nonneg)
  done

lemma pushup_body_nonneg: "count_pushup_reps_body lib s = Inr n \<Longrightarrow> 0 \<le> n"
  unfolding count_pushup_reps_body_def Let_def
  apply (erule bindE)
  apply (simp split: if_splits)
  apply (erule extrema_tail_nonneg)
  done

lemma lunge_body_nonneg: "count_lunge_reps_body lib s = Inr n \<Longrightarrow> 0 \<le> n"
  unfolding count_lunge_reps_body_def Let_def
  apply (erule bindE)
  apply (simp split: if_splits)
  apply (erule bindE)
  apply (erule bindE)
  apply (erule extrema_tail_nonneg)
  done

lemma count_repetitions_nonneg: "0 \<le> count_repetitions lib s ex"
proof -
  have 1: "0 \<le> count_squat_reps lib s"
    by (cases "count_squat_reps_body lib s") (simp_all add: count_squat_reps_def squat_body_nonneg)
  have 2: "0 \<le> count_pushup_reps lib s"
    by (cases "count_pushup_reps_body lib s") (simp_all add: count_pushup_reps_def pushup_body_nonneg)
  have 3: "0 \<le> count_lunge_reps lib s"
    by (cases "count_lunge_reps_body lib s") (simp_all add: count_lunge_reps_def lunge_body_nonneg)
  show ?thesis using 1 2 3 by (simp add: count_repetitions_def)
qed

lemma or_praise_nonempty: "fst (or_praise m acc) \<noteq> []"
  by (simp add: or_praise_def)

lemma form_bodies:
  "analyze_squat_form_body s = Inr r \<Longrightarrow> fst r \<noteq> []"
  "analyze_pushup_form_body s = Inr r \<Longrightarrow> fst r \<noteq> []"
  "analyze_lunge_form_body s = Inr r \<Longrightarrow> fst r \<noteq> []"
  unfolding analyze_squat_form_body_def analyze_pushup_form_body_def analyze_lunge_form_body_def Let_def
  by (auto elim!: bindE simp: or_praise_nonempty)

lemma analyze_form_ok:
  "fst (analyze_form s ex) \<noteq> [] \<and> 0 \<le> snd (analyze_form s ex) \<and> snd (analyze_form s ex) \<le> 10"
proof -
  have 1: "fst (analyze_squat_form s) \<noteq> []"
    by (cases "analyze_squat_form_body s") (simp_all add: analyze_squat_form_def form_bodies)
  have 2: "fst (analyze_pushup_form s) \<noteq> []"
    by (cases "analyze_pushup_form_body s") (simp_all add: analyze_pushup_form_def form_bodies)
  have 3: "fst (analyze_lunge_form s) \<noteq> []"
    by (cases "analyze_lunge_form_body s") (simp_all add: analyze_lunge_form_def form_bodies)
  show ?thesis
    using 1 2 3 by (simp add: analyze_form_def Let_def split_beta)
qed

lemma analyze_video_Frames:
  assumes "List.map_filter (\<lambda>lm. lm) rs = valid"
  shows "analyze_video lib (Frames rs) =
     (if valid = [] then
        \<lparr>exerciseName = ''unknown'', repCount = 0,
         feedback = [''Could not detect pose in video''],
         formScore = 0, analysisQuality = None\<rparr>
      else if length valid < 30 then
        \<lparr>exerciseName = ''unknown'', repCount = 0,
         feedback = [''Video too short for analysis''],
         formScore = 0, analysisQuality = None\<rparr>
      else
        \<lparr>exerciseName = detect_exercise_type lib valid,
         repCount = count_repetitions lib valid (detect_exercise_type lib valid),
         feedback = fst (analyze_form valid (detect_exercise_type lib valid)),
         formScore = py_round1 (snd (analyze_form valid (detect_exercise_type lib valid))),
         analysisQuality = Some (if real (length valid) / real (length rs) > 0.8
                                 then ''high'' else ''medium'')\<rparr>)"
  using assms by (simp add: analyze_video_def Let_def split_beta)

text \<open>
  C2. Whatever the capture gave (no video, a fault of the video or pose library, or any
  sequence of frames, well-formed or not) and whatever the signal library does,
  \<open>analyze_video\<close> returns a record with a repetition count of at least 0, a form score
  between 0 and 10 and a non-empty feedback list. Every \<open>try\<close> of the source is a total
  function here, its \<open>except\<close> a branch.
\<close>

theorem analyze_video_invariants:
  "0 \<le> repCount (analyze_video lib cap) \<and>
   0 \<le> formScore (analyze_video lib cap) \<and> formScore (analyze_video lib cap) \<le> 10 \<and>
   feedback (analyze_video lib cap) \<noteq> []"
proof (cases cap)
  case NotOpened
  then show ?thesis by (simp add: analyze_video_def)
next
  case (Raised e)
  then show ?thesis by (simp add: analyze_video_def)
next
  case (Frames rs)
  obtain valid where v: "List.map_filter (\<lambda>lm. lm) rs = valid" by simp
  define ex where "ex = detect_exercise_type lib valid"
  note r = analyze_video_Frames[OF v, of lib, folded ex_def]
  have fs: "0 \<le> py_round1 (snd (analyze_form valid ex)) \<and>
            py_round1 (snd (analyze_form valid ex)) \<le> 10"
    using analyze_form_ok[of valid ex] by (intro py_round1_range) simp_all
  show ?thesis
    unfolding Frames r
    using fs analyze_form_ok[of valid ex] count_repetitions_nonneg[of lib valid ex]
    by simp
qed

section \<open>The loops over the frames\<close>

lemma getitem_ok: "i < length f \<Longrightarrow> getitem f i = Inr (f ! i)"
  by (simp add: getitem_def)

lemma angle_at_ok:
  "i < length f \<Longrightarrow> j < length f \<Longrightarrow> k < length f \<Longrightarrow>
   angle_at f i j k = Inr (joint_angle f i j k)"
  by (simp add: angle_at_def joint_angle_def getitem_ok)

lemma for_frames_append:
  assumes "\<And>f. f \<in> set seq \<Longrightarrow> f \<noteq> [] \<and> g f = Inr (h f)"
  shows "for_frames (\<lambda>l acc. bind (g l) (\<lambda>v. Inr (acc @ [v]))) seq acc = Inr (acc @ map h seq)"
  using assms by (induction seq arbitrary: acc) simp_all

lemma collect_ok:
  assumes "\<And>f. f \<in> set seq \<Longrightarrow> f \<noteq> [] \<and> g f = Inr (h f)"
  shows "collect g seq = Inr (map h seq)"
  unfolding collect_def using for_frames_append[OF assms, of seq "[]"] by simp

lemma for_frames_length:
  "for_frames (\<lambda>l acc. bind (g l) (\<lambda>v. Inr (acc @ [v]))) seq acc = Inr vs \<Longrightarrow>
   length vs = length acc + length (valid_frames seq)"
proof (induction seq arbitrary: acc)
  case Nil
  then show ?case by (simp add: valid_frames_def)
next
  case (Cons f seq)
  show ?case
  proof (cases "f = []")
    case True
    with Cons show ?thesis by (simp add: valid_frames_def)
  next
    case False
    with Cons.prems obtain v where v: "g f = Inr v"
      by (cases "g f") simp_all
    with Cons.prems False have "for_frames (\<lambda>l acc. bind (g l) (\<lambda>v. Inr (acc @ [v]))) seq (acc @ [v]) = Inr vs"
      by simp
    from Cons.IH[OF this] False show ?thesis by (simp add: valid_frames_def)
  qed
qed

lemma collect_length: "collect g seq = Inr vs \<Longrightarrow> length vs = length (valid_frames seq)"
  unfolding collect_def using for_frames_length[of g seq "[]" vs] by simp

lemma frames33_valid: "frames33 seq \<Longrightarrow> valid_frames seq = seq"
  by (auto simp: frames33_def valid_frames_def filter_id_conv)

lemma frames33_D: "frames33 seq \<Longrightarrow> f \<in> set seq \<Longrightarrow> length f = 33"
  by (simp add: frames33_def)

lemma collect_avg_knee: "frames33 seq \<Longrightarrow> collect avg_knee seq = Inr (avg_knee_signal seq)"
  unfolding avg_knee_signal_def
  by (rule collect_ok)
     (auto dest!: frames33_D simp: avg_knee_def left_knee_angle_def right_knee_angle_def angle_at_ok)

lemma collect_avg_elbow: "frames33 seq \<Longrightarrow> collect avg_elbow seq = Inr (avg_elbow_signal seq)"
  unfolding avg_elbow_signal_def
  by (rule collect_ok)
     (auto dest!: frames33_D simp: avg_elbow_def left_elbow_angle_def right_elbow_angle_def angle_at_ok)

lemma collect_left_elbow: "frames33 seq \<Longrightarrow> collect left_elbow_angle seq = Inr (left_elbow_signal seq)"
  unfolding left_elbow_signal_def
  by (rule collect_ok) (auto dest!: frames33_D simp: left_elbow_angle_def angle_at_ok)

lemma collect_both_knees:
  "frames33 seq \<Longrightarrow>
   collect both_knees seq = Inr (map (\<lambda>f. (joint_angle f 23 25 27, joint_angle f 24 26 28)) seq)"
  by (rule collect_ok)
     (auto dest!: frames33_D simp: both_knees_def left_knee_angle_def right_knee_angle_def angle_at_ok)

lemma spread_range_of: "vs \<noteq> [] \<Longrightarrow> spread vs = Inr (range_of vs)"
  by (cases vs) (simp_all add: spread_def range_of_def)

lemma extrema_count_eq:
  "(case bind (find_peaks lib sig (Fin hi) d) (\<lambda>peaks.
         bind (find_peaks lib (map fl_neg sig) (Fin (- lo)) d) (\<lambda>valleys.
         Inr (int (min (length peaks) (length valleys))))) of
      Inr n \<Rightarrow> n | Inl e \<Rightarrow> 0) = extrema_count lib sig hi lo d"
  by (cases "find_peaks lib sig (Fin hi) d"; cases "find_peaks lib (map fl_neg sig) (Fin (- lo)) d")
     (simp_all add: extrema_count_def)

lemma count_squat_reps_spec:
  assumes "frames33 seq"
  shows "count_squat_reps lib seq =
     (if length seq < 10 then 0
      else extrema_count lib (smooth_data lib (avg_knee_signal seq) (min 7 (int (length seq)))) 160 90 10)"
proof -
  have len: "length (avg_knee_signal seq) = length seq" by (simp add: avg_knee_signal_def)
  show ?thesis
    unfolding count_squat_reps_def count_squat_reps_body_def collect_avg_knee[OF assms]
      squat_knee_angle_max_def squat_knee_angle_min_def
    by (simp add: len Let_def extrema_count_eq)
qed

lemma count_pushup_reps_spec:
  assumes "frames33 seq"
  shows "count_pushup_reps lib seq =
     (if length seq < 10 then 0
      else extrema_count lib (smooth_data lib (avg_elbow_signal seq) (min 7 (int (length seq)))) 160 70 8)"
proof -
  have len: "length (avg_elbow_signal seq) = length seq" by (simp add: avg_elbow_signal_def)
  show ?thesis
    unfolding count_pushup_reps_def count_pushup_reps_body_def collect_avg_elbow[OF assms]
      pushup_elbow_angle_max_def pushup_elbow_angle_min_def
    by (simp add: len Let_def extrema_count_eq)
qed

lemma count_lunge_reps_spec:
  assumes "frames33 seq"
  shows "count_lunge_reps lib seq =
     (if length seq < 10 then 0
      else extrema_count lib (smooth_data lib (active_leg_signal seq) 5) 140 100 10)"
proof (cases "length seq < 10")
  case True
  then show ?thesis
    unfolding count_lunge_reps_def count_lunge_reps_body_def collect_both_knees[OF assms]
    by (simp add: Let_def)
next
  case False
  have l: "map fst (map (\<lambda>f. (joint_angle f 23 25 27, joint_angle f 24 26 28)) seq) = left_knee_signal seq"
    by (simp add: left_knee_signal_def comp_def)
  have r: "map snd (map (\<lambda>f. (joint_angle f 23 25 27, joint_angle f 24 26 28)) seq) = right_knee_signal seq"
    by (simp add: right_knee_signal_def comp_def)
  have ne: "left_knee_signal seq \<noteq> []" "right_knee_signal seq \<noteq> []"
    using False by (auto simp: left_knee_signal_def right_knee_signal_def)
  have len: "length (left_knee_signal seq) = length seq" by (simp add: left_knee_signal_def)
  have a: "(if fl_gt (range_of (left_knee_signal seq)) (range_of (right_knee_signal seq))
            then left_knee_signal seq else right_knee_signal seq) = active_leg_signal seq"
    by (simp add: active_leg_signal_def)
  show ?thesis
    unfolding count_lunge_reps_def count_lunge_reps_body_def collect_both_knees[OF assms]
      bind_simps Let_def l r spread_range_of[OF ne(1)] spread_range_of[OF ne(2)] a
    using False by (simp add: len extrema_count_eq)
qed

lemma count_squat_short: "length (valid_frames seq) < 10 \<Longrightarrow> count_squat_reps lib seq = 0"
proof (cases "collect avg_knee seq")
  case (Inl e)
  then show ?thesis by (simp add: count_squat_reps_def count_squat_reps_body_def)
next
  case (Inr vs)
  assume "length (valid_frames seq) < 10"
  with collect_length[OF Inr] have "length vs < 10" by simp
  then show ?thesis by (simp add: count_squat_reps_def count_squat_reps_body_def Inr)
qed

lemma count_pushup_short: "length (valid_frames seq) < 10 \<Longrightarrow> count_pushup_reps lib seq = 0"
proof (cases "collect avg_elbow seq")
  case (Inl e)
  then show ?thesis by (simp add: count_pushup_reps_def count_pushup_reps_body_def)
next
  case (Inr vs)
  assume "length (valid_frames seq) < 10"
  with collect_length[OF Inr] have "length vs < 10" by simp
  then show ?thesis by (simp add: count_pushup_reps_def count_pushup_reps_body_def Inr)
qed

lemma count_lunge_short: "length (valid_frames seq) < 10 \<Longrightarrow> count_lunge_reps lib seq = 0"
proof (cases "collect both_knees seq")
  case (Inl e)
  then show ?thesis by (simp add: count_lunge_reps_def count_lunge_reps_body_def)
next
  case (Inr vs)
  assume "length (valid_frames seq) < 10"
  with collect_length[OF Inr] have "length vs < 10" by simp
  then show ?thesis by (simp add: count_lunge_reps_def count_lunge_reps_body_def Inr Let_def)
qed



section \<open>The worked inputs evaluated\<close>

lemma example_lengths [simp]:
  "length standing = 33" "length squatting = 33" "length left_knee_bent = 33"
  "length right_arm_bent = 33"
  by (simp_all add: standing_def squatting_def left_knee_bent_def right_arm_bent_def)

lemma standing_angles:
  "joint_angle standing 23 25 27 = Fin 180" "joint_angle standing 24 26 28 = Fin 180"
  "joint_angle standing 11 13 15 = Fin 180" "joint_angle standing 12 14 16 = Fin 180"
  by (simp_all add: joint_angle_def standing_def xy_def lm_def calculate_angle_vertical)

lemma squatting_angles:
  "joint_angle squatting 23 25 27 = Fin 90" "joint_angle squatting 24 26 28 = Fin 90"
  by (simp_all add: joint_angle_def squatting_def standing_def xy_def lm_def
      calculate_angle_perp_x)

lemma left_knee_bent_angles:
  "joint_angle left_knee_bent 23 25 27 = Fin 90" "joint_angle left_knee_bent 24 26 28 = Fin 180"
  by (simp_all add: joint_angle_def left_knee_bent_def standing_def xy_def lm_def
      calculate_angle_perp_x calculate_angle_perp_y calculate_angle_vertical)

lemma right_arm_bent_angles:
  "joint_angle right_arm_bent 11 13 15 = Fin 180" "joint_angle right_arm_bent 12 14 16 = Fin 90"
  by (simp_all add: joint_angle_def right_arm_bent_def standing_def xy_def lm_def
      calculate_angle_perp_x calculate_angle_perp_y calculate_angle_vertical)

lemma squat_cycle_signal:
  "avg_knee_signal squat_cycle =
     [Fin 180, Fin 90, Fin 180, Fin 90, Fin 180, Fin 90, Fin 180, Fin 90, Fin 180, Fin 90]"
  by (simp add: avg_knee_signal_def squat_cycle_def standing_angles squatting_angles)

lemma squat_cycle_reps: "reps_spec example_lib squat_cycle ''squat'' = 4"
proof -
  have v: "valid_frames squat_cycle = squat_cycle"
    by (rule frames33_valid) (simp add: frames33_def squat_cycle_def)
  have n: "length squat_cycle = 10" by (simp add: squat_cycle_def)
  have sm: "smooth_data example_lib (avg_knee_signal squat_cycle) 7 = avg_knee_signal squat_cycle"
    by (simp add: smooth_data_def example_lib_def squat_cycle_signal)
  have "reps_spec example_lib squat_cycle ''squat''
          = extrema_count example_lib (avg_knee_signal squat_cycle) 160 90 10"
    by (simp add: reps_spec_def v n sm)
  also have "\<dots> = 4"
    by (simp add: squat_cycle_signal extrema_count_def example_lib_def)
  finally show ?thesis .
qed



section \<open>The repetition count\<close>

text \<open>
  C5. On frames of 33 landmarks \<open>count_repetitions\<close> is the count of the table: for squat,
  push-up and lunge the smaller of the number of peaks and the number of valleys that the
  detector finds on the smoothed canonical signal, with the heights and the spacing of
  the table (160/90/10, 160/70/8, 140/100/10), and 0 when the detector fails. With fewer
  than 10 valid frames the count is 0, on any frames. Any other exercise type counts 0,
  whatever the library does.
\<close>

theorem count_repetitions_min_peaks_valleys:
  "(frames33 landmarks_sequence \<longrightarrow>
      count_repetitions lib landmarks_sequence exercise_type
        = reps_spec lib landmarks_sequence exercise_type) \<and>
   (length (valid_frames landmarks_sequence) < 10 \<longrightarrow>
      count_repetitions lib landmarks_sequence exercise_type = 0) \<and>
   (exercise_type \<noteq> ''squat'' \<and> exercise_type \<noteq> ''push_up'' \<and> exercise_type \<noteq> ''lunge'' \<longrightarrow>
      count_repetitions lib landmarks_sequence exercise_type = 0)"
proof (intro conjI impI)
  assume wf: "frames33 landmarks_sequence"
  show "count_repetitions lib landmarks_sequence exercise_type
        = reps_spec lib landmarks_sequence exercise_type"
    unfolding count_repetitions_def reps_spec_def frames33_valid[OF wf] Let_def
      count_squat_reps_spec[OF wf] count_pushup_reps_spec[OF wf] count_lunge_reps_spec[OF wf]
    by simp
next
  assume "length (valid_frames landmarks_sequence) < 10"
  then show "count_repetitions lib landmarks_sequence exercise_type = 0"
    by (simp add: count_repetitions_def count_squat_short count_pushup_short count_lunge_short)
next
  assume "exercise_type \<noteq> ''squat'' \<and> exercise_type \<noteq> ''push_up'' \<and> exercise_type \<noteq> ''lunge''"
  then show "count_repetitions lib landmarks_sequence exercise_type = 0"
    by (simp add: count_repetitions_def)
qed

theorem count_repetitions_min_peaks_valleys_witness:
  "count_repetitions example_lib squat_cycle ''squat'' = 4 \<and>
   count_repetitions example_lib [standing, squatting] ''squat'' = 0 \<and>
   count_repetitions example_lib squat_cycle ''plank'' = 0"
proof -
  have wf: "frames33 squat_cycle" by (simp add: frames33_def squat_cycle_def)
  have short: "length (valid_frames [standing, squatting]) < 10" by (simp add: valid_frames_def)
  show ?thesis
    using count_repetitions_min_peaks_valleys[of squat_cycle example_lib "''squat''"]
      count_repetitions_min_peaks_valleys[of "[standing, squatting]" example_lib "''squat''"]
      count_repetitions_min_peaks_valleys[of squat_cycle example_lib "''plank''"]
      wf short squat_cycle_reps
    by simp
qed

lemma left_arm_bent_len [simp]: "length left_arm_bent = 33"
  by (simp add: left_arm_bent_def)

lemma left_arm_bent_angles:
  "joint_angle left_arm_bent 11 13 15 = Fin 90" "joint_angle left_arm_bent 12 14 16 = Fin 180"
  by (simp_all add: joint_angle_def left_arm_bent_def standing_def xy_def lm_def
      calculate_angle_perp_x calculate_angle_perp_y calculate_angle_vertical)

section \<open>Elbow movement\<close>

lemma analyze_elbow_movement_wf:
  assumes "frames33 seq"
  shows "analyze_elbow_movement lib seq = angle_movement lib (left_elbow_signal seq)"
proof (cases "spread (smooth_data lib (left_elbow_signal seq) 5)")
  case (Inl e)
  then show ?thesis
    by (simp add: analyze_elbow_movement_def analyze_elbow_movement_body_def
        collect_left_elbow[OF assms] angle_movement_def Let_def)
next
  case (Inr r)
  then show ?thesis
    by (simp add: analyze_elbow_movement_def analyze_elbow_movement_body_def
        collect_left_elbow[OF assms] angle_movement_def Let_def)
qed

lemma analyze_elbow_movement_short:
  assumes "length (valid_frames seq) < 2"
  shows "analyze_elbow_movement lib seq = Fin 0"
proof (cases "collect left_elbow_angle seq")
  case (Inl e)
  then show ?thesis by (simp add: analyze_elbow_movement_def analyze_elbow_movement_body_def)
next
  case (Inr vs)
  with collect_length[OF Inr] assms have "length vs < 2" by simp
  then show ?thesis by (simp add: analyze_elbow_movement_def analyze_elbow_movement_body_def Inr)
qed

text \<open>
  What \<open>analyze_elbow_movement\<close> computes: the range of the smoothed left elbow angle
  (landmarks 11, 13, 15) of the frames, over 180, on frames of 33 landmarks; with fewer
  than 2 valid frames it is 0. The right elbow is not read.
\<close>

lemma analyze_elbow_movement_left_elbow:
  "(frames33 landmarks_sequence \<longrightarrow>
      analyze_elbow_movement lib landmarks_sequence
        = angle_movement lib (left_elbow_signal landmarks_sequence)) \<and>
   (length (valid_frames landmarks_sequence) < 2 \<longrightarrow>
      analyze_elbow_movement lib landmarks_sequence = Fin 0)"
  using analyze_elbow_movement_wf analyze_elbow_movement_short by blast

lemma analyze_elbow_movement_left_elbow_example:
  "analyze_elbow_movement example_lib [standing, left_arm_bent] = Fin (1/2) \<and>
   analyze_elbow_movement example_lib [right_arm_bent] = Fin 0"
proof -
  have wf: "frames33 [standing, left_arm_bent]" by (simp add: frames33_def)
  have short: "length (valid_frames [right_arm_bent]) < 2" by (simp add: valid_frames_def)
  have v: "angle_movement example_lib (left_elbow_signal [standing, left_arm_bent]) = Fin (1/2)"
    by (simp add: angle_movement_def left_elbow_signal_def standing_angles left_arm_bent_angles
        smooth_data_def spread_def fl_gt_def fl_sub_def)
  show ?thesis
    using analyze_elbow_movement_left_elbow[of "[standing, left_arm_bent]" example_lib]
      analyze_elbow_movement_left_elbow[of "[right_arm_bent]" example_lib] wf short v
    by simp
qed

text \<open>
  C7, what the code does. With the left arm straight in both frames and the right forearm
  raised to a right angle in the second, \<open>analyze_elbow_movement\<close> returns 0, where the
  range of the per-frame mean of the left and the right elbow angle, over 180, is 1/4:
  the metric reads the left elbow only, while its sibling \<open>analyze_knee_movement\<close> and
  the push-up counter take the mean of the left and the right angle.
\<close>

theorem analyze_elbow_movement_ignores_right_elbow:
  "analyze_elbow_movement example_lib [standing, right_arm_bent] = Fin 0 \<and>
   elbow_movement_spec example_lib [standing, right_arm_bent] = Fin (1/4)"
proof
  have wf: "frames33 [standing, right_arm_bent]" by (simp add: frames33_def)
  show "analyze_elbow_movement example_lib [standing, right_arm_bent] = Fin 0"
    unfolding analyze_elbow_movement_wf[OF wf]
    by (simp add: angle_movement_def left_elbow_signal_def standing_angles right_arm_bent_angles
        smooth_data_def spread_def fl_gt_def fl_sub_def)
  have v: "valid_frames [standing, right_arm_bent] = [standing, right_arm_bent]"
    by (rule frames33_valid[OF wf])
  show "elbow_movement_spec example_lib [standing, right_arm_bent] = Fin (1/4)"
    unfolding elbow_movement_spec_def v
    by (simp add: angle_movement_def avg_elbow_signal_def standing_angles right_arm_bent_angles
        smooth_data_def spread_def fl_gt_def fl_sub_def)
qed

section \<open>Smoothing window of the lunge counter\<close>

lemma lunge_cycle_wf: "frames33 lunge_cycle"
  by (simp add: frames33_def lunge_cycle_def)

lemma squat_cycle_wf: "frames33 squat_cycle"
  by (simp add: frames33_def squat_cycle_def)

lemma lunge_cycle_active:
  "active_leg_signal lunge_cycle =
     [Fin 180, Fin 90, Fin 180, Fin 90, Fin 180, Fin 90, Fin 180, Fin 90, Fin 180, Fin 90]"
proof -
  have l: "left_knee_signal lunge_cycle =
     [Fin 180, Fin 90, Fin 180, Fin 90, Fin 180, Fin 90, Fin 180, Fin 90, Fin 180, Fin 90]"
    by (simp add: left_knee_signal_def lunge_cycle_def standing_angles left_knee_bent_angles)
  have r: "right_knee_signal lunge_cycle =
     [Fin 180, Fin 180, Fin 180, Fin 180, Fin 180, Fin 180, Fin 180, Fin 180, Fin 180, Fin 180]"
    by (simp add: right_knee_signal_def lunge_cycle_def standing_angles left_knee_bent_angles)
  have rl: "range_of (left_knee_signal lunge_cycle) = Fin 90"
    unfolding l by (simp add: range_of_def spread_def fl_gt_def fl_sub_def)
  have rr: "range_of (right_knee_signal lunge_cycle) = Fin 0"
    unfolding r by (simp add: range_of_def spread_def fl_gt_def fl_sub_def)
  show ?thesis
    unfolding active_leg_signal_def rl rr by (simp add: fl_gt_def l)
qed

text \<open>
  C6, what the code does for the lunge. On ten frames of lunges the lunge counter calls
  the filter with window 5 (the default of \<open>smooth_data\<close>) and order 3, not with
  min(7, 10) = 7; on ten frames of squats the squat counter calls it with window 7. The
  canonical signal of the lunge is the series of the left knee, the leg with the larger
  range. The statement holds for every library.
\<close>

theorem count_lunge_reps_window_5:
  "count_lunge_reps lib lunge_cycle =
     extrema_count lib
       (case savgol_filter lib
               [Fin 180, Fin 90, Fin 180, Fin 90, Fin 180, Fin 90, Fin 180, Fin 90, Fin 180, Fin 90]
               5 3 of
          Inr smoothed \<Rightarrow> smoothed
        | Inl e \<Rightarrow>
            [Fin 180, Fin 90, Fin 180, Fin 90, Fin 180, Fin 90, Fin 180, Fin 90, Fin 180, Fin 90])
       140 100 10 \<and>
   count_squat_reps lib squat_cycle =
     extrema_count lib
       (case savgol_filter lib
               [Fin 180, Fin 90, Fin 180, Fin 90, Fin 180, Fin 90, Fin 180, Fin 90, Fin 180, Fin 90]
               7 3 of
          Inr smoothed \<Rightarrow> smoothed
        | Inl e \<Rightarrow>
            [Fin 180, Fin 90, Fin 180, Fin 90, Fin 180, Fin 90, Fin 180, Fin 90, Fin 180, Fin 90])
       160 90 10"
proof
  have n: "length lunge_cycle = 10" by (simp add: lunge_cycle_def)
  show "count_lunge_reps lib lunge_cycle =
     extrema_count lib
       (case savgol_filter lib
               [Fin 180, Fin 90, Fin 180, Fin 90, Fin 180, Fin 90, Fin 180, Fin 90, Fin 180, Fin 90]
               5 3 of
          Inr smoothed \<Rightarrow> smoothed
        | Inl e \<Rightarrow>
            [Fin 180, Fin 90, Fin 180, Fin 90, Fin 180, Fin 90, Fin 180, Fin 90, Fin 180, Fin 90])
       140 100 10"
    unfolding count_lunge_reps_spec[OF lunge_cycle_wf] n lunge_cycle_active
    by (simp add: smooth_data_def)
  have m: "length squat_cycle = 10" by (simp add: squat_cycle_def)
  show "count_squat_reps lib squat_cycle =
     extrema_count lib
       (case savgol_filter lib
               [Fin 180, Fin 90, Fin 180, Fin 90, Fin 180, Fin 90, Fin 180, Fin 90, Fin 180, Fin 90]
               7 3 of
          Inr smoothed \<Rightarrow> smoothed
        | Inl e \<Rightarrow>
            [Fin 180, Fin 90, Fin 180, Fin 90, Fin 180, Fin 90, Fin 180, Fin 90, Fin 180, Fin 90])
       160 90 10"
    unfolding count_squat_reps_spec[OF squat_cycle_wf] m squat_cycle_signal
    by (simp add: smooth_data_def)
qed

section \<open>Form rules that read one side of the body\<close>

lemma for_frames_count:
  assumes step: "\<And>f c. f \<in> set seq \<Longrightarrow>
      \<exists>c'. body f c = Inr c' \<and> proj c' = proj c + (if P f then 1 else (0::int))"
    and ne: "\<And>f. f \<in> set seq \<Longrightarrow> f \<noteq> []"
  shows "\<exists>c'. for_frames body seq c = Inr c' \<and> proj c' = proj c + int (length (filter P seq))"
  using assms
proof (induction seq arbitrary: c)
  case Nil
  then show ?case by simp
next
  case (Cons f seq)
  from Cons.prems(1)[of f c] obtain c1 where
    c1: "body f c = Inr c1" "proj c1 = proj c + (if P f then 1 else 0)"
    by auto
  have "\<exists>c'. for_frames body seq c1 = Inr c' \<and> proj c' = proj c1 + int (length (filter P seq))"
    by (rule Cons.IH) (use Cons.prems in auto)
  then obtain c' where c': "for_frames body seq c1 = Inr c'"
      "proj c' = proj c1 + int (length (filter P seq))"
    by blast
  have "f \<noteq> []" using Cons.prems(2) by simp
  then have "for_frames body (f # seq) c = Inr c'" using c1 c' by simp
  moreover have "proj c' = proj c + int (length (filter P (f # seq)))" using c1 c' by simp
  ultimately show ?case by blast
qed

lemma squat_step_left:
  assumes "length f = 33"
  shows "\<exists>c'. squat_step f c = Inr c' \<and>
     knee_cave_frames c' = knee_cave_frames c + (if knee_cave f then 1 else 0) \<and>
     knee_forward_frames c' = knee_forward_frames c + (if knee_forward f then 1 else 0)"
  using assms
  by (simp add: squat_step_def getitem_ok mean_x_def mean_y_def Let_def knee_cave_def
      knee_forward_def)

lemma lunge_step_left:
  assumes "length f = 33"
  shows "\<exists>c'. lunge_step f c = Inr c' \<and>
     lunge_knee_forward_frames c' = lunge_knee_forward_frames c + (if knee_forward f then 1 else 0)"
  using assms
  by (simp add: lunge_step_def getitem_ok mean_x_def Let_def knee_forward_def)

lemma pushup_step_left:
  assumes "length f = 33"
  shows "\<exists>c'. pushup_step f c = Inr c' \<and>
     partial_rom_frames c' = partial_rom_frames c + (if partial_rom f then 1 else 0)"
  using assms
  by (simp add: pushup_step_def getitem_ok mean_y_def angle_at_ok Let_def partial_rom_def)


lemma squat_loop_left:
  assumes "frames33 seq"
  shows "\<exists>c. squat_loop seq = Inr c \<and>
     knee_cave_frames c = int (length (filter knee_cave seq)) \<and>
     knee_forward_frames c = int (length (filter knee_forward seq))"
proof -
  let ?c0 = "\<lparr>knee_cave_frames = 0, back_lean_frames = 0, depth_insufficient_frames = 0,
        knee_forward_frames = 0\<rparr>"
  have ne: "\<And>f. f \<in> set seq \<Longrightarrow> f \<noteq> []" using assms by (auto simp: frames33_def)
  have len: "\<And>f. f \<in> set seq \<Longrightarrow> length f = 33" using assms by (simp add: frames33_def)
  have a: "\<exists>c'. for_frames squat_step seq ?c0 = Inr c' \<and>
        knee_cave_frames c' = knee_cave_frames ?c0 + int (length (filter knee_cave seq))"
    by (rule for_frames_count[OF _ ne]) (use squat_step_left[OF len] in blast)+
  have b: "\<exists>c'. for_frames squat_step seq ?c0 = Inr c' \<and>
        knee_forward_frames c' = knee_forward_frames ?c0 + int (length (filter knee_forward seq))"
    by (rule for_frames_count[OF _ ne]) (use squat_step_left[OF len] in blast)+
  from a b show ?thesis unfolding squat_loop_def by auto
qed

lemma lunge_loop_left:
  assumes "frames33 seq"
  shows "\<exists>c. lunge_loop seq = Inr c \<and>
     lunge_knee_forward_frames c = int (length (filter knee_forward seq))"
proof -
  let ?c0 = "\<lparr>lunge_knee_forward_frames = 0, torso_lean_frames = 0, insufficient_depth_frames = 0\<rparr>"
  have ne: "\<And>f. f \<in> set seq \<Longrightarrow> f \<noteq> []" using assms by (auto simp: frames33_def)
  have len: "\<And>f. f \<in> set seq \<Longrightarrow> length f = 33" using assms by (simp add: frames33_def)
  have a: "\<exists>c'. for_frames lunge_step seq ?c0 = Inr c' \<and>
        lunge_knee_forward_frames c' = lunge_knee_forward_frames ?c0 + int (length (filter knee_forward seq))"
    by (rule for_frames_count[OF _ ne]) (use lunge_step_left[OF len] in blast)+
  from a show ?thesis unfolding lunge_loop_def by auto
qed

lemma pushup_loop_left:
  assumes "frames33 seq"
  shows "\<exists>c. pushup_loop seq = Inr c \<and>
     partial_rom_frames c = int (length (filter partial_rom seq))"
proof -
  let ?c0 = "\<lparr>hip_sag_frames = 0, hip_pike_frames = 0, partial_rom_frames = 0,
        head_position_frames = 0\<rparr>"
  have ne: "\<And>f. f \<in> set seq \<Longrightarrow> f \<noteq> []" using assms by (auto simp: frames33_def)
  have len: "\<And>f. f \<in> set seq \<Longrightarrow> length f = 33" using assms by (simp add: frames33_def)
  have a: "\<exists>c'. for_frames pushup_step seq ?c0 = Inr c' \<and>
        partial_rom_frames c' = partial_rom_frames ?c0 + int (length (filter partial_rom seq))"
    by (rule for_frames_count[OF _ ne]) (use pushup_step_left[OF len] in blast)+
  from a show ?thesis unfolding pushup_loop_def by auto
qed

lemma filter_length_cong:
  "list_all2 (\<lambda>f g. P f = P g) xs ys \<Longrightarrow> length (filter P xs) = length (filter P ys)"
  by (induction rule: list_all2_induct) simp_all

lemma same_at_knee_cave: "same_at [23, 25, 27] f g \<Longrightarrow> knee_cave f = knee_cave g"
  by (simp add: same_at_def knee_cave_def)

lemma same_at_knee_forward: "same_at [25, 27] f g \<Longrightarrow> knee_forward f = knee_forward g"
  by (simp add: same_at_def knee_forward_def)

lemma same_at_partial_rom: "same_at [11, 13, 15] f g \<Longrightarrow> partial_rom f = partial_rom g"
  by (simp add: same_at_def partial_rom_def joint_angle_def)

text \<open>
  C10. On frames of 33 landmarks, the squat counters of the knee-cave and knee-forward
  rules are the numbers of frames whose left hip, knee and ankle (landmarks 23, 25, 27)
  meet the test, the lunge counter of the front-knee rule reads the left knee and ankle
  (25, 27), and the push-up counter of the partial range of motion reads the left
  shoulder, elbow and wrist (11, 13, 15): two sequences that agree on these landmarks,
  whatever the right side does, give the same counts.
\<close>

theorem form_rules_left_side_only:
  "frames33 seq \<and> frames33 seq' \<longrightarrow>
     (list_all2 (same_at [23, 25, 27]) seq seq' \<longrightarrow>
        (\<exists>c c'. squat_loop seq = Inr c \<and> squat_loop seq' = Inr c' \<and>
           knee_cave_frames c = int (length (filter knee_cave seq)) \<and>
           knee_forward_frames c = int (length (filter knee_forward seq)) \<and>
           knee_cave_frames c' = knee_cave_frames c \<and>
           knee_forward_frames c' = knee_forward_frames c)) \<and>
     (list_all2 (same_at [25, 27]) seq seq' \<longrightarrow>
        (\<exists>c c'. lunge_loop seq = Inr c \<and> lunge_loop seq' = Inr c' \<and>
           lunge_knee_forward_frames c = int (length (filter knee_forward seq)) \<and>
           lunge_knee_forward_frames c' = lunge_knee_forward_frames c)) \<and>
     (list_all2 (same_at [11, 13, 15]) seq seq' \<longrightarrow>
        (\<exists>c c'. pushup_loop seq = Inr c \<and> pushup_loop seq' = Inr c' \<and>
           partial_rom_frames c = int (length (filter partial_rom seq)) \<and>
           partial_rom_frames c' = partial_rom_frames c))"
proof (intro impI conjI)
  assume wf: "frames33 seq \<and> frames33 seq'"
  {
    assume s: "list_all2 (same_at [23, 25, 27]) seq seq'"
    have "list_all2 (\<lambda>f g. knee_cave f = knee_cave g) seq seq'"
      by (rule list_all2_mono[OF s]) (rule same_at_knee_cave)
    then have 1: "length (filter knee_cave seq) = length (filter knee_cave seq')"
      by (rule filter_length_cong)
    have "list_all2 (\<lambda>f g. knee_forward f = knee_forward g) seq seq'"
      by (rule list_all2_mono[OF s]) (simp add: same_at_def knee_forward_def)
    then have 2: "length (filter knee_forward seq) = length (filter knee_forward seq')"
      by (rule filter_length_cong)
    from squat_loop_left[of seq] squat_loop_left[of seq'] wf 1 2
    show "\<exists>c c'. squat_loop seq = Inr c \<and> squat_loop seq' = Inr c' \<and>
           knee_cave_frames c = int (length (filter knee_cave seq)) \<and>
           knee_forward_frames c = int (length (filter knee_forward seq)) \<and>
           knee_cave_frames c' = knee_cave_frames c \<and>
           knee_forward_frames c' = knee_forward_frames c"
      by auto
  }
  {
    assume s: "list_all2 (same_at [25, 27]) seq seq'"
    have "list_all2 (\<lambda>f g. knee_forward f = knee_forward g) seq seq'"
      by (rule list_all2_mono[OF s]) (rule same_at_knee_forward)
    then have 2: "length (filter knee_forward seq) = length (filter knee_forward seq')"
      by (rule filter_length_cong)
    from lunge_loop_left[of seq] lunge_loop_left[of seq'] wf 2
    show "\<exists>c c'. lunge_loop seq = Inr c \<and> lunge_loop seq' = Inr c' \<and>
           lunge_knee_forward_frames c = int (length (filter knee_forward seq)) \<and>
           lunge_knee_forward_frames c' = lunge_knee_forward_frames c"
      by auto
  }
  {
    assume s: "list_all2 (same_at [11, 13, 15]) seq seq'"
    have "list_all2 (\<lambda>f g. partial_rom f = partial_rom g) seq seq'"
      by (rule list_all2_mono[OF s]) (rule same_at_partial_rom)
    then have 2: "length (filter partial_rom seq) = length (filter partial_rom seq')"
      by (rule filter_length_cong)
    from pushup_loop_left[of seq] pushup_loop_left[of seq'] wf 2
    show "\<exists>c c'. pushup_loop seq = Inr c \<and> pushup_loop seq' = Inr c' \<and>
           partial_rom_frames c = int (length (filter partial_rom seq)) \<and>
           partial_rom_frames c' = partial_rom_frames c"
      by auto
  }
qed

lemma right_knee_in_len [simp]: "length right_knee_in = 33"
  by (simp add: right_knee_in_def)

text \<open>
  In \<open>right_knee_in\<close> the right knee is inward of the right hip and ankle by more than
  0.02, the left leg is as in \<open>standing\<close>.
\<close>

lemma right_knee_in_right_side:
  "fl_lt (lm_x (right_knee_in ! 26))
         (fl_sub (min2 (lm_x (right_knee_in ! 24)) (lm_x (right_knee_in ! 28))) (Fin 0.02))"
  by (simp add: right_knee_in_def standing_def lm_def min2_def fl_sub_def)

theorem form_rules_left_side_only_witness:
  "(\<exists>c c'. squat_loop [standing] = Inr c \<and> squat_loop [right_knee_in] = Inr c' \<and>
      knee_cave_frames c = 0 \<and> knee_forward_frames c = 0 \<and>
      knee_cave_frames c' = 0 \<and> knee_forward_frames c' = 0) \<and>
   (\<exists>c c'. lunge_loop [standing] = Inr c \<and> lunge_loop [right_knee_in] = Inr c' \<and>
      lunge_knee_forward_frames c = 0 \<and> lunge_knee_forward_frames c' = 0) \<and>
   (\<exists>c c'. pushup_loop [standing] = Inr c \<and> pushup_loop [right_arm_bent] = Inr c' \<and>
      partial_rom_frames c = 1 \<and> partial_rom_frames c' = 1)"
proof -
  have wf: "frames33 [standing] \<and> frames33 [right_knee_in]"
           "frames33 [standing] \<and> frames33 [right_arm_bent]"
    by (simp_all add: frames33_def)
  have s1: "list_all2 (same_at [23, 25, 27]) [standing] [right_knee_in]"
    by (simp add: same_at_def right_knee_in_def standing_def)
  have s2: "list_all2 (same_at [25, 27]) [standing] [right_knee_in]"
    by (simp add: same_at_def right_knee_in_def standing_def)
  have s3: "list_all2 (same_at [11, 13, 15]) [standing] [right_arm_bent]"
    by (simp add: same_at_def right_arm_bent_def standing_def)
  have k: "\<not> knee_cave standing" "\<not> knee_forward standing"
    by (simp_all add: knee_cave_def knee_forward_def standing_def lm_def min2_def fl_sub_def
        fl_gt_def)
  have p: "partial_rom standing"
    by (simp add: partial_rom_def standing_angles fl_gt_def)
  show ?thesis
    using form_rules_left_side_only[of "[standing]" "[right_knee_in]"]
      form_rules_left_side_only[of "[standing]" "[right_arm_bent]"]
      wf s1 s2 s3 k p
    by simp metis
qed

section \<open>Orchestration\<close>

lemma map_filter_valid: "List.map_filter (\<lambda>lm. lm) rs = valid_subsequence rs"
  by (simp add: List.map_filter_def valid_subsequence_def comp_def)

text \<open>\<open>py_round1\<close> gives a multiple of one tenth, at most half a tenth away.\<close>

lemma py_round1_tenth:
  "(\<exists>k::int. py_round1 v = of_int k / 10) \<and> \<bar>py_round1 v - v\<bar> \<le> 1 / 20"
proof
  show "\<exists>k::int. py_round1 v = of_int k / 10" by (auto simp: py_round1_def)
  have "\<bar>of_int (round_half_even (v * 10)) - v * 10\<bar> \<le> 1 / 2"
    unfolding round_half_even_def Let_def by (auto simp: abs_if) linarith+
  then show "\<bar>py_round1 v - v\<bar> \<le> 1 / 20"
    unfolding py_round1_def by (simp add: abs_if field_simps split: if_splits)
qed

text \<open>
  C3. After a capture that read every frame, \<open>analyze_video\<close> drops the sentinel frames
  and: with no valid frame returns the unknown result "Could not detect pose in video",
  score 0, count 0; with at least one and fewer than 30 valid frames returns the unknown
  result "Video too short for analysis", score 0, count 0; otherwise returns the
  classifier's exercise, the counter's count and the form analyzer's feedback on the valid
  frames, the form score rounded to one decimal, and the quality "high" exactly when the
  share of valid frames among the frames read is over 0.8, "medium" otherwise. The two
  short results carry no quality.
\<close>

theorem analyze_video_steps:
  "(valid_subsequence rs = [] \<longrightarrow>
      analyze_video lib (Frames rs) =
        \<lparr>exerciseName = ''unknown'', repCount = 0,
         feedback = [''Could not detect pose in video''],
         formScore = 0, analysisQuality = None\<rparr>) \<and>
   (valid_subsequence rs \<noteq> [] \<and> length (valid_subsequence rs) < 30 \<longrightarrow>
      analyze_video lib (Frames rs) =
        \<lparr>exerciseName = ''unknown'', repCount = 0,
         feedback = [''Video too short for analysis''],
         formScore = 0, analysisQuality = None\<rparr>) \<and>
   (30 \<le> length (valid_subsequence rs) \<longrightarrow>
      analyze_video lib (Frames rs) =
        \<lparr>exerciseName = detect_exercise_type lib (valid_subsequence rs),
         repCount = count_repetitions lib (valid_subsequence rs)
                      (detect_exercise_type lib (valid_subsequence rs)),
         feedback = fst (analyze_form (valid_subsequence rs)
                      (detect_exercise_type lib (valid_subsequence rs))),
         formScore = py_round1 (snd (analyze_form (valid_subsequence rs)
                      (detect_exercise_type lib (valid_subsequence rs)))),
         analysisQuality =
           Some (if 0.8 < real (length (valid_subsequence rs)) / real (length rs)
                 then ''high'' else ''medium'')\<rparr>)"
  unfolding analyze_video_Frames[OF map_filter_valid] by auto



text \<open>Thirty frames of a person standing still.\<close>

lemma for_frames_const:
  "f \<noteq> [] \<Longrightarrow> body f s = Inr s \<Longrightarrow> for_frames body (replicate n f) s = Inr s"
  by (induction n) simp_all

lemma collect_const:
  assumes "f \<noteq> []" "g f = Inr v"
  shows "collect g (replicate n f) = Inr (replicate n v)"
  using collect_ok[of "replicate n f" g "\<lambda>_. v"] assms by simp

lemma foldl_max_const: "foldl (\<lambda>m w. if fl_gt w m then w else m) (Fin a) (replicate k (Fin a)) = Fin a"
  by (induction k) (simp_all add: fl_gt_def)

lemma foldl_min_const: "foldl (\<lambda>m w. if fl_lt w m then w else m) (Fin a) (replicate k (Fin a)) = Fin a"
  by (induction k) simp_all

lemma spread_const: "0 < n \<Longrightarrow> spread (replicate n (Fin a)) = Inr (Fin 0)"
  by (cases n) (simp_all add: spread_def foldl_max_const foldl_min_const fl_sub_def)

lemma smooth_const: "smooth_data example_lib (replicate 30 v) 5 = replicate 30 v"
  by (simp add: smooth_data_def example_lib_def)

lemma standing_ne: "standing \<noteq> []"
proof
  assume "standing = []"
  then have "length standing = 0" by (simp only: list.size)
  then show False by simp
qed

lemma standing_signals:
  "mean_y standing 23 24 = Inr (Fin (1/2))" "mean_y standing 11 12 = Inr (Fin (1/5))"
  "avg_knee standing = Inr (Fin 180)" "left_elbow_angle standing = Inr (Fin 180)"
  "both_knees standing = Inr (Fin 180, Fin 180)"
  by (simp_all add: mean_y_def getitem_ok avg_knee_def both_knees_def left_knee_angle_def
      right_knee_angle_def left_elbow_angle_def angle_at_ok standing_angles)
     (simp_all add: standing_def lm_def)

lemma still_metrics:
  "analyze_hip_movement example_lib (replicate 30 standing) = Fin 0"
  "analyze_knee_movement example_lib (replicate 30 standing) = Fin 0"
  "analyze_shoulder_movement example_lib (replicate 30 standing) = Fin 0"
  "analyze_elbow_movement example_lib (replicate 30 standing) = Fin 0"
  by (simp_all add: analyze_hip_movement_def analyze_hip_movement_body_def
      analyze_knee_movement_def analyze_knee_movement_body_def
      analyze_shoulder_movement_def analyze_shoulder_movement_body_def
      analyze_elbow_movement_def analyze_elbow_movement_body_def
      collect_const[OF standing_ne] standing_signals smooth_const spread_const)

lemma still_horizontal: "check_horizontal_body_position (replicate 30 standing) = False"
proof -
  have "horizontal_step standing 0 = Inr 0"
    by (simp add: horizontal_step_def standing_signals fl_sub_def)
  then have "for_frames horizontal_step (replicate 30 standing) 0 = Inr 0"
    by (rule for_frames_const[OF standing_ne])
  then show ?thesis
    by (simp add: check_horizontal_body_position_def check_horizontal_body_position_body_def)
qed

lemma still_asymmetric: "detect_asymmetric_leg_movement (replicate 30 standing) = False"
  by (simp add: detect_asymmetric_leg_movement_def detect_asymmetric_leg_movement_body_def
      collect_const[OF standing_ne] standing_signals spread_const Let_def fl_gt_def fl_sub_def)

lemma still_unknown: "detect_exercise_type example_lib (replicate 30 standing) = ''unknown''"
proof -
  have ne: "replicate 30 standing \<noteq> []" by simp
  have g: "\<not> fl_gt (Fin 0) (Fin a)" if "0 \<le> a" for a
    using that by (simp add: fl_gt_def)
  show ?thesis
    unfolding detect_exercise_type_def Let_def still_metrics still_horizontal still_asymmetric
    by (simp only: ne if_False g simp_thms) simp
qed

lemma py_round1_5: "py_round1 5 = 5"
  by (simp add: py_round1_def round_half_even_def)



theorem analyze_video_steps_witness:
  "analyze_video example_lib (Frames [None, None]) =
     \<lparr>exerciseName = ''unknown'', repCount = 0,
      feedback = [''Could not detect pose in video''],
      formScore = 0, analysisQuality = None\<rparr> \<and>
   analyze_video example_lib (Frames [Some standing, None, Some squatting]) =
     \<lparr>exerciseName = ''unknown'', repCount = 0,
      feedback = [''Video too short for analysis''],
      formScore = 0, analysisQuality = None\<rparr> \<and>
   analyze_video example_lib (Frames (replicate 30 (Some standing))) =
     \<lparr>exerciseName = ''unknown'', repCount = 0,
      feedback = [''Exercise not recognized for detailed analysis''],
      formScore = 5, analysisQuality = Some ''high''\<rparr> \<and>
   analyze_video example_lib (Frames (replicate 10 None @ replicate 30 (Some standing))) =
     \<lparr>exerciseName = ''unknown'', repCount = 0,
      feedback = [''Exercise not recognized for detailed analysis''],
      formScore = 5, analysisQuality = Some ''medium''\<rparr>"
proof -
  have v1: "valid_subsequence [None, None] = []"
    by (simp add: valid_subsequence_def)
  have v2: "valid_subsequence [Some standing, None, Some squatting] = [standing, squatting]"
    by (simp add: valid_subsequence_def)
  have v3: "valid_subsequence (replicate 30 (Some standing)) = replicate 30 standing"
    by (simp add: valid_subsequence_def)
  have v4: "valid_subsequence (replicate 10 None @ replicate 30 (Some standing)) = replicate 30 standing"
    by (simp add: valid_subsequence_def)
  have f: "analyze_form (replicate 30 standing) ''unknown''
             = ([''Exercise not recognized for detailed analysis''], 5)"
    by (simp add: analyze_form_def)
  have c: "count_repetitions example_lib (replicate 30 standing) ''unknown'' = 0"
    by (simp add: count_repetitions_def)
  show ?thesis
    using analyze_video_steps[of "[None, None]" example_lib]
      analyze_video_steps[of "[Some standing, None, Some squatting]" example_lib]
      analyze_video_steps[of "replicate 30 (Some standing)" example_lib]
      analyze_video_steps[of "replicate 10 None @ replicate 30 (Some standing)" example_lib]
    unfolding v1 v2 v3 v4 still_unknown f c
    by (simp add: py_round1_5)
qed

end
